theory Spec2Isabelle
  imports Complex_Main "HOL-Library.Char_ord" "HOL-Library.List_Lexorder" "HOL-Library.Log_Nat"
begin

section \<open>Common data of the service-to-invoice workflow (server/routes.ts)\<close>

text \<open>
  A JavaScript number that carries money is modelled by its value, a rational, and every
  sum or difference the handlers compute is rounded to the nearest double, as the
  addition and subtraction of IEEE 754 doubles do (section "JavaScript numbers" below).
  Timestamps (\<^verbatim>\<open>new Date()\<close>) are milliseconds since the epoch, document ids and
  enum-like fields strings, \<^verbatim>\<open>undefined\<close>/\<^verbatim>\<open>null\<close> are \<open>None\<close>.
  A collection of documents addressed by \<^verbatim>\<open>findById\<close> is a map from ids to
  documents; \<^verbatim>\<open>doc.save()\<close> writes the document back under its id. Reads and
  writes of the store succeed, except that a lookup by an id that does not cast to an
  ObjectId is rejected, and except for the save of a service visit, whose outcome is a
  parameter.
\<close>

type_synonym timestamp = int
type_synonym money = rat

subsection \<open>JavaScript numbers\<close>

text \<open>
  A finite double is \<open>m * 2 ^ e\<close> with an integer \<open>m\<close> of at most 53 bits and
  \<open>e \<ge> -1074\<close>. \<open>round_double\<close> is round-to-nearest, ties to even: the exponent is
  chosen so that the scaled magnitude lies in \<open>[2^52, 2^53)\<close> (or at the subnormal
  exponent), and the scaled magnitude is rounded to an integer. A rounded result of
  magnitude \<open>2^1024\<close> or more stands for Infinity (\<open>finite_double\<close> fails); the
  arithmetic on Infinity and NaN is not modelled.
\<close>

definition pow2 :: "int \<Rightarrow> rat" where
  "pow2 e = (if 0 \<le> e then 2 ^ nat e else 1 / 2 ^ nat (- e))"

definition round_half_even :: "rat \<Rightarrow> int" where
  "round_half_even r =
     (let f = \<lfloor>r\<rfloor>; d = r - of_int f
      in if d < 1 / 2 then f else if 1 / 2 < d then f + 1 else if even f then f else f + 1)"

definition double_exponent :: "rat \<Rightarrow> int" where
  "double_exponent a =
     (case quotient_of a of (p, q) \<Rightarrow>
        let e0 = bitlen p - bitlen q - 53;
            e = (if 2 ^ 53 \<le> a / pow2 e0 then e0 + 1 else e0)
        in max e (- 1074))"

definition round_double :: "rat \<Rightarrow> rat" where
  "round_double x =
     (if x = 0 then 0
      else let e = double_exponent \<bar>x\<bar>
           in sgn x * of_int (round_half_even (\<bar>x\<bar> / pow2 e)) * pow2 e)"

text \<open>\<^verbatim>\<open>a + b\<close> and \<^verbatim>\<open>a - b\<close> on doubles.\<close>

definition fadd :: "rat \<Rightarrow> rat \<Rightarrow> rat" where
  "fadd a b = round_double (a + b)"

definition fsub :: "rat \<Rightarrow> rat \<Rightarrow> rat" where
  "fsub a b = round_double (a - b)"

text \<open>The rationals that are finite doubles: rounding leaves them as they are.\<close>

definition finite_double :: "rat \<Rightarrow> bool" where
  "finite_double x \<longleftrightarrow> \<bar>x\<bar> < 2 ^ 1024"

definition is_double :: "rat \<Rightarrow> bool" where
  "is_double x \<longleftrightarrow> round_double x = x \<and> finite_double x"

subsection \<open>Documents\<close>

text \<open>
  What a handler sends: \<^verbatim>\<open>res.json(x)\<close> is \<open>Json x\<close>, and
  \<^verbatim>\<open>res.status(c).json({k: v, ...})\<close> is \<open>Fail c [(k, v), ...]\<close>.
\<close>

datatype 'a response = Json 'a | Fail nat "(string \<times> string) list"

record payment =
  amount :: money
  paymentMode :: string
  transactionId :: "string option"
  pay_notes :: "string option"
  recordedBy :: string
  transactionDate :: timestamp

record warranty_card =
  url :: string
  filename :: string
  uploadedAt :: timestamp

record invoice_item =
  item_type :: string
  productId :: "string option"
  item_name :: string
  quantity :: money
  unitPrice :: money
  total :: money
  hasWarranty :: bool
  item_warrantyCards :: "warranty_card list option"

record customer_details =
  cd_referenceCode :: string
  cd_fullName :: string
  cd_mobileNumber :: string
  cd_alternativeNumber :: "string option"
  cd_email :: "string option"
  cd_address :: "string option"
  cd_city :: "string option"
  cd_taluka :: "string option"
  cd_district :: "string option"
  cd_state :: "string option"
  cd_pinCode :: "string option"
  cd_referralSource :: "string option"
  cd_isVerified :: bool
  cd_registrationDate :: timestamp

record vehicle_details =
  vd_vehicleId :: "string option"
  vd_vehicleNumber :: "string option"
  vd_vehicleBrand :: "string option"
  vd_vehicleModel :: "string option"
  vd_customModel :: "string option"
  vd_variant :: "string option"
  vd_color :: "string option"
  vd_yearOfPurchase :: "int option"
  vd_vehiclePhoto :: "string option"
  vd_isNewVehicle :: "bool option"
  vd_chassisNumber :: "string option"
  vd_selectedParts :: "string list option"
  vd_vehicleRegistrationDate :: timestamp

record approval_status =
  approvedBy :: "string option"
  approvedAt :: "timestamp option"
  rejectedBy :: "string option"
  rejectedAt :: "timestamp option"
  rejectionReason :: "string option"

record invoice =
  serviceVisitId :: string
  customerId :: "string option"
  customerDetails :: "customer_details option"
  vehicleDetails :: "vehicle_details list option"
  items :: "invoice_item list"
  subtotal :: money
  discountType :: string
  discountValue :: money
  discountAmount :: money
  couponCode :: "string option"
  couponId :: "string option"
  taxRate :: money
  taxAmount :: money
  totalAmount :: money
  paidAmount :: money
  dueAmount :: money
  createdBy :: string
  status :: string
  paymentStatus :: string
  paymentMethod :: "string option"
  payments :: "payment list"
  approvalStatus :: "approval_status option"
  pdfAccessToken :: "string option"
  pdfTokenExpiry :: "timestamp option"
  pdfPath :: "string option"
  inv_notes :: "string option"
  inv_terms :: "string option"

type_synonym invoices = "string \<rightharpoonup> invoice"

text \<open>The session context the auth middleware attaches to a request.\<close>

record session =
  userId :: string
  userName :: string
  userRole :: string

text \<open>The apostrophe, which a string literal cannot hold, used in a few messages.\<close>

definition apostrophe :: string where
  "apostrophe = [CHR 0x27]"

text \<open>
  \<^verbatim>\<open>Model.findById(id)\<close>: Mongoose casts the id to an ObjectId first and rejects
  with a CastError when the string is not one; \<open>valid\<close> says which strings cast.
\<close>

datatype db_error = CastError

definition error_message :: "db_error \<Rightarrow> string" where
  "error_message e = (case e of CastError \<Rightarrow> ''Cast to ObjectId failed'')"

definition findById :: "(string \<Rightarrow> bool) \<Rightarrow> (string \<rightharpoonup> 'a) \<Rightarrow> string \<Rightarrow> db_error + 'a option" where
  "findById valid coll k = (if valid k then Inr (coll k) else Inl CastError)"

text \<open>The ids that cast: an ObjectId is written as 24 hexadecimal digits.\<close>

definition is_hex :: "char \<Rightarrow> bool" where
  "is_hex c \<longleftrightarrow> (CHR ''0'' \<le> c \<and> c \<le> CHR ''9'') \<or> (CHR ''a'' \<le> c \<and> c \<le> CHR ''f'') \<or> (CHR ''A'' \<le> c \<and> c \<le> CHR ''F'')"

definition is_object_id :: "string \<Rightarrow> bool" where
  "is_object_id s \<longleftrightarrow> length s = 24 \<and> list_all is_hex s"

text \<open>Whether a handler answered with its result rather than an error.\<close>

definition accepted :: "'a response \<Rightarrow> bool" where
  "accepted r = (case r of Json _ \<Rightarrow> True | Fail _ _ \<Rightarrow> False)"

section \<open>Payment status and payment recording\<close>

text \<open>The message of the status check, which quotes the three values.\<close>

definition invalid_payment_status :: string where
  "invalid_payment_status =
     ''Invalid payment status. Must be '' @ apostrophe @ ''paid'' @ apostrophe @ '', ''
       @ apostrophe @ ''unpaid'' @ apostrophe @ '', or '' @ apostrophe @ ''partial'' @ apostrophe"

text \<open>
  \<^verbatim>\<open>PATCH /api/invoices/:id/payment-status\<close>. The body fields are
  \<open>None\<close> when absent; \<^verbatim>\<open>!paymentStatus\<close> also holds for the empty string.
\<close>

definition setPaymentStatus ::
  "(string \<Rightarrow> bool) \<Rightarrow> invoices \<Rightarrow> string \<Rightarrow> string option \<Rightarrow> string option
     \<Rightarrow> invoices \<times> invoice response" where
  "setPaymentStatus valid db iid paymentStatus' paymentMethod' =
    (case paymentStatus' of
       None \<Rightarrow> (db, Fail 400 [(''error'', invalid_payment_status)])
     | Some ps \<Rightarrow>
       if ps = [] \<or> ps \<notin> set [''paid'', ''unpaid'', ''partial''] then
         (db, Fail 400 [(''error'', invalid_payment_status)])
       else if ps = ''paid'' \<and> paymentMethod' \<noteq> None \<and> paymentMethod' \<noteq> Some []
               \<and> the paymentMethod' \<notin> set [''UPI'', ''Cash'', ''Card'', ''Net Banking'', ''Cheque''] then
         (db, Fail 400 [(''error'', ''Invalid payment method'')])
       else
         (case findById valid db iid of
            Inl _ \<Rightarrow> (db, Fail 500 [(''error'', ''Failed to update payment status'')])
          | Inr None \<Rightarrow> (db, Fail 404 [(''error'', ''Invoice not found'')])
          | Inr (Some iv) \<Rightarrow>
            if status iv \<noteq> ''approved'' then
              (db, Fail 400 [(''error'', ''Can only update payment status for approved invoices'')])
            else
              let inv1 = iv\<lparr>paymentStatus := ps\<rparr>;
                  inv2 =
                    (if ps = ''paid'' then
                       let p = inv1\<lparr>paidAmount := totalAmount inv1, dueAmount := 0\<rparr>
                       in (if paymentMethod' \<noteq> None \<and> paymentMethod' \<noteq> Some []
                           then p\<lparr>paymentMethod := paymentMethod'\<rparr> else p)
                     else if ps = ''unpaid'' then
                       inv1\<lparr>paidAmount := 0, dueAmount := totalAmount inv1, paymentMethod := None\<rparr>
                     else inv1)
              in (db(iid \<mapsto> inv2), Json inv2)))"









section \<open>Token-gated public PDF retrieval\<close>

text \<open>
  \<^verbatim>\<open>GET /api/public/invoices/:id/pdf\<close>, up to the point where the PDF is
  streamed: the checks, in the order of the source. \<open>token\<close> is the query parameter.
\<close>

datatype pdf_access = StreamPdf | Refused nat string

definition public_pdf ::
  "(string \<Rightarrow> bool) \<Rightarrow> invoices \<Rightarrow> string \<Rightarrow> string option \<Rightarrow> timestamp \<Rightarrow> pdf_access" where
  "public_pdf valid db iid token now =
    (case findById valid db iid of
       Inl _ \<Rightarrow> Refused 500 ''Failed to download PDF''
     | Inr None \<Rightarrow> Refused 404 ''Invoice not found''
     | Inr (Some iv) \<Rightarrow>
       if status iv \<noteq> ''approved'' then
         Refused 400 ''PDF can only be accessed for approved invoices''
       else if pdfAccessToken iv = None \<or> pdfAccessToken iv = Some [] \<or> pdfAccessToken iv \<noteq> token then
         Refused 403 ''Invalid or missing access token''
       else if (case pdfTokenExpiry iv of None \<Rightarrow> False | Some e \<Rightarrow> now > e) then
         Refused 403 ''Access token has expired''
       else StreamPdf)"

section \<open>Invoice approval and warranty creation\<close>

text \<open>
  The persisted products (\<^verbatim>\<open>Product\<close> collection), with the fields the handlers read.
\<close>

record product =
  p_name :: string
  p_category :: string
  p_brand :: string
  sellingPrice :: money
  p_warranty :: "string option"
  stockQty :: int

type_synonym products = "string \<rightharpoonup> product"

text \<open>
  A valid \<^verbatim>\<open>Date\<close> read through its calendar fields (\<^verbatim>\<open>getMonth()\<close> counts from
  0), as \<^verbatim>\<open>setMonth\<close> works on them; \<open>d_ms\<close> is the time within the day, which
  \<^verbatim>\<open>setMonth\<close> keeps. A \<^verbatim>\<open>Date\<close> that may be the Invalid Date is a
  \<open>jsdate option\<close>, \<open>None\<close> for Invalid Date.
\<close>

record jsdate =
  d_year :: int
  d_month :: nat
  d_day :: nat
  d_ms :: nat

definition leap_year :: "int \<Rightarrow> bool" where
  "leap_year y \<longleftrightarrow> (y mod 4 = 0 \<and> y mod 100 \<noteq> 0) \<or> y mod 400 = 0"

definition days_in_month :: "int \<Rightarrow> nat \<Rightarrow> nat" where
  "days_in_month y m =
     (if m = 1 then (if leap_year y then 29 else 28)
      else if m = 3 \<or> m = 5 \<or> m = 8 \<or> m = 10 then 30 else 31)"

text \<open>
  The day number (days since 1 January 1970) of day \<open>d\<close> of month \<open>m\<close> (from 0) of
  year \<open>y\<close> in the proleptic Gregorian calendar, and the time value of a date, in
  milliseconds since the epoch (the zone offset is taken as 0).
\<close>

definition days_from_civil :: "int \<Rightarrow> int \<Rightarrow> int \<Rightarrow> int" where
  "days_from_civil y m d =
     (let y' = (if m < 2 then y - 1 else y);
          era = y' div 400;
          yoe = y' - era * 400;
          doy = (153 * ((m + 10) mod 12) + 2) div 5 + d - 1;
          doe = yoe * 365 + yoe div 4 - yoe div 100 + doy
      in era * 146097 + doe - 719468)"

definition day_ms :: int where
  "day_ms = 24 * 60 * 60 * 1000"

definition time_value :: "int \<Rightarrow> int \<Rightarrow> int \<Rightarrow> int \<Rightarrow> int" where
  "time_value y m d ms = days_from_civil y m d * day_ms + ms"

text \<open>
  \<^verbatim>\<open>d.setMonth(m)\<close> on a valid date, for a number \<open>m \<ge> 0\<close>. An infinite \<open>m\<close>
  gives Invalid Date. Otherwise the integer part of \<open>m\<close> is carried into the year,
  the day of the month and the time within the day are kept, and a time value beyond
  \<open>8.64 * 10^15\<close> milliseconds from the epoch gives Invalid Date (\<^verbatim>\<open>TimeClip\<close>). A day
  of the month that the target month does not have runs over into the next month
  (31 January plus one month is 3 March, or 2 March in a leap year).
\<close>

definition setMonth :: "jsdate \<Rightarrow> rat \<Rightarrow> jsdate option" where
  "setMonth d m =
     (if \<not> finite_double m then None
      else
        let mi = \<lfloor>m\<rfloor>; y1 = d_year d + mi div 12; m1 = nat (mi mod 12);
            n = days_in_month y1 m1
        in if 8640000000000000 < \<bar>time_value y1 (int m1) (int (d_day d)) (int (d_ms d))\<bar> then None
           else if d_day d \<le> n then Some (d\<lparr>d_year := y1, d_month := m1\<rparr>)
           else if m1 = 11 then Some (d\<lparr>d_year := y1 + 1, d_month := 0, d_day := d_day d - n\<rparr>)
           else Some (d\<lparr>d_year := y1, d_month := m1 + 1, d_day := d_day d - n\<rparr>))"

record warranty =
  w_invoiceId :: string
  w_customerId :: "string option"
  w_productId :: string
  w_productName :: string
  warrantyType :: string
  durationMonths :: rat
  startDate :: jsdate
  endDate :: "jsdate option"
  coverage :: string
  w_status :: string

text \<open>
  \<^verbatim>\<open>parseInt(product.warranty.match(/\d+/)?.[0] || '12')\<close>: the leftmost match of
  \<^verbatim>\<open>\d+\<close> is the first maximal run of ASCII digits; \<^verbatim>\<open>parseInt\<close> of a string
  that starts with a digit is the number its leading digits denote in base ten, as a
  JavaScript number: the double nearest to it (Infinity from \<open>2^1024\<close> on).
\<close>

definition is_digit :: "char \<Rightarrow> bool" where
  "is_digit c \<longleftrightarrow> CHR ''0'' \<le> c \<and> c \<le> CHR ''9''"

definition match_digits :: "string \<Rightarrow> string" where
  "match_digits s = takeWhile is_digit (dropWhile (\<lambda>c. \<not> is_digit c) s)"

definition parseInt :: "string \<Rightarrow> rat" where
  "parseInt ds =
     round_double (of_int (foldl (\<lambda>n c. 10 * n + (of_char c - 48)) 0 (takeWhile is_digit ds)))"

text \<open>
  Following the claim's words, the number an integer literal denotes: the decimal value
  of a run of digits, written as the sum of its digits times their powers of ten.
\<close>

definition decimal_value :: "string \<Rightarrow> int" where
  "decimal_value ds = (\<Sum>i < length ds. (of_char (ds ! i) - 48) * 10 ^ (length ds - 1 - i))"

definition warranty_months :: "string \<Rightarrow> rat" where
  "warranty_months w = parseInt (if match_digits w = [] then ''12'' else match_digits w)"

text \<open>
  The body of the \<^verbatim>\<open>map\<close> callback of the warranty step for one line item:
  \<open>None\<close> when the callback returns \<^verbatim>\<open>null\<close> or its lookup rejects, otherwise the
  document it hands to \<^verbatim>\<open>Warranty.create\<close>. \<open>today\<close> is the callback's
  \<^verbatim>\<open>new Date()\<close>; \<^verbatim>\<open>endDate.getMonth() + durationMonths\<close> is an addition of doubles.
\<close>

definition warranty_for ::
  "(string \<Rightarrow> bool) \<Rightarrow> products \<Rightarrow> string \<Rightarrow> string option \<Rightarrow> jsdate \<Rightarrow> invoice_item \<Rightarrow> warranty option" where
  "warranty_for valid prods iid cust today item =
     (case productId item of
        None \<Rightarrow> None
      | Some pid \<Rightarrow>
        (case findById valid prods pid of
           Inl _ \<Rightarrow> None
         | Inr None \<Rightarrow> None
         | Inr (Some p) \<Rightarrow>
           (case p_warranty p of
              None \<Rightarrow> None
            | Some w \<Rightarrow>
              if w = [] then None
              else
                let months = warranty_months w
                in Some \<lparr>w_invoiceId = iid, w_customerId = cust, w_productId = pid,
                         w_productName = item_name item, warrantyType = ''manufacturer'',
                         durationMonths = months, startDate = today,
                         endDate = setMonth today (fadd (of_nat (d_month today)) months),
                         coverage = w, w_status = ''active''\<rparr>)))"

definition warranty_items :: "invoice_item list \<Rightarrow> invoice_item list" where
  "warranty_items its = filter (\<lambda>item. hasWarranty item \<and> item_type item = ''product'') its"

text \<open>
  The warranty step: the callbacks of all flagged items run independently, the \<open>k\<close>-th
  reading the clock as \<open>clock k\<close>. \<^verbatim>\<open>Warranty.create\<close> validates a document
  against the Warranty schema, which is a parameter here: \<open>accepts\<close> tells the
  documents it stores from those it rejects. The Warranty rows created are collected in
  item order; the step throws (and the handler logs it) when a product lookup or a
  \<^verbatim>\<open>Warranty.create\<close> rejects.
\<close>

definition warranty_requests ::
  "(string \<Rightarrow> bool) \<Rightarrow> products \<Rightarrow> string \<Rightarrow> string option \<Rightarrow> (nat \<Rightarrow> jsdate) \<Rightarrow> invoice_item list
     \<Rightarrow> warranty list" where
  "warranty_requests valid prods iid cust clock its =
     List.map_filter (\<lambda>(k, item). warranty_for valid prods iid cust (clock k) item)
       (enumerate 0 (warranty_items its))"

definition create_warranties ::
  "(string \<Rightarrow> bool) \<Rightarrow> products \<Rightarrow> (warranty \<Rightarrow> bool) \<Rightarrow> string \<Rightarrow> string option \<Rightarrow> (nat \<Rightarrow> jsdate)
     \<Rightarrow> invoice_item list \<Rightarrow> warranty list" where
  "create_warranties valid prods accepts iid cust clock its =
     filter accepts (warranty_requests valid prods iid cust clock its)"

definition warranty_step_throws ::
  "(string \<Rightarrow> bool) \<Rightarrow> products \<Rightarrow> (warranty \<Rightarrow> bool) \<Rightarrow> string \<Rightarrow> string option \<Rightarrow> (nat \<Rightarrow> jsdate)
     \<Rightarrow> invoice_item list \<Rightarrow> bool" where
  "warranty_step_throws valid prods accepts iid cust clock its \<longleftrightarrow>
     (\<exists>item \<in> set (warranty_items its). case productId item of None \<Rightarrow> False | Some pid \<Rightarrow> \<not> valid pid)
     \<or> (\<exists>w \<in> set (warranty_requests valid prods iid cust clock its). \<not> accepts w)"

text \<open>
  What the approval handler takes from outside the stores: the random token, the two
  clock readings of the approval itself, the clock of the warranty callbacks, the
  documents \<^verbatim>\<open>Warranty.create\<close> accepts, and the outcome of each other best-effort
  sub-step (\<open>None\<close> / \<open>False\<close> when it throws).
\<close>

record approve_env =
  e_token :: string
  e_approvedAt :: timestamp
  e_tokenTime :: timestamp
  e_pdf :: "string option"
  e_clock :: "nat \<Rightarrow> jsdate"
  e_warranty_ok :: "warranty \<Rightarrow> bool"
  e_notify_ok :: bool
  e_log_ok :: bool

record approve_result =
  r_invoices :: invoices
  r_warranties :: "warranty list"
  r_response :: "invoice response"
  r_errors :: "string list"

text \<open>
  \<^verbatim>\<open>POST /api/invoices/:id/approve\<close>. \<^verbatim>\<open>tokenExpiry.setDate(getDate() + 7)\<close>
  moves the expiry seven calendar days on, seven times 24 hours in a zone without a
  clock change. \<open>r_errors\<close> lists the sub-steps whose failure was caught and logged.
\<close>

definition approve ::
  "session \<Rightarrow> approve_env \<Rightarrow> (string \<Rightarrow> bool) \<Rightarrow> products \<Rightarrow> invoices \<Rightarrow> warranty list \<Rightarrow> string
     \<Rightarrow> approve_result" where
  "approve s env valid prods db ws iid =
    (case findById valid db iid of
       Inl e \<Rightarrow> \<lparr>r_invoices = db, r_warranties = ws,
                  r_response = Fail 500 [(''error'', ''Failed to approve invoice''),
                                         (''details'', error_message e)],
                  r_errors = []\<rparr>
     | Inr None \<Rightarrow> \<lparr>r_invoices = db, r_warranties = ws,
                     r_response = Fail 404 [(''error'', ''Invoice not found'')], r_errors = []\<rparr>
     | Inr (Some iv) \<Rightarrow>
       if status iv \<noteq> ''pending_approval'' then
         \<lparr>r_invoices = db, r_warranties = ws,
          r_response = Fail 400 [(''error'', ''Invoice is not pending approval''),
                                 (''currentStatus'', status iv)],
          r_errors = []\<rparr>
       else
         let iv1 = iv\<lparr>status := ''approved'',
                       approvalStatus := Some \<lparr>approvedBy = Some (userId s),
                                                approvedAt = Some (e_approvedAt env),
                                                rejectedBy = None, rejectedAt = None,
                                                rejectionReason = None\<rparr>,
                       pdfAccessToken := Some (e_token env),
                       pdfTokenExpiry := Some (e_tokenTime env + 7 * day_ms)\<rparr>;
             db1 = db(iid \<mapsto> iv1);
             iv2 = (case e_pdf env of None \<Rightarrow> iv1 | Some path \<Rightarrow> iv1\<lparr>pdfPath := Some path\<rparr>);
             db2 = (case e_pdf env of None \<Rightarrow> db1 | Some path \<Rightarrow> db1(iid \<mapsto> iv2));
             ws' = ws @ create_warranties valid prods (e_warranty_ok env) iid (customerId iv2)
                          (e_clock env) (items iv2)
         in \<lparr>r_invoices = db2, r_warranties = ws', r_response = Json iv2,
             r_errors = (if e_pdf env = None then [''PDF generation error''] else [])
                      @ (if warranty_step_throws valid prods (e_warranty_ok env) iid (customerId iv2)
                               (e_clock env) (items iv2)
                         then [''Warranty creation error''] else [])
                      @ (if e_notify_ok env then [] else [''Notification sending error''])
                      @ (if e_log_ok env then [] else [''Activity logging error''])\<rparr>)"

section \<open>Part resolver\<close>

text \<open>
  \<^verbatim>\<open>POST /api/products/resolve-by-ids\<close>. The static catalog behind
  \<^verbatim>\<open>getPartById\<close> (shared/vehicleData) is a parameter: a map from catalog ids to
  parts.
\<close>

record catalog_part =
  cp_id :: string
  cp_name :: string
  cp_category :: string
  cp_price :: money

type_synonym catalog = "string \<rightharpoonup> catalog_part"

record resolved_product =
  rp_id :: string
  rp_name :: string
  rp_category :: string
  rp_brand :: "string option"
  rp_price :: money
  rp_warranty :: "string option"
  rp_stockQty :: "int option"
  rp_source :: string

text \<open>
  \<^verbatim>\<open>productId.startsWith('product-') ? productId.replace('product-', '') : productId\<close>:
  the first occurrence that \<^verbatim>\<open>replace\<close> removes is the prefix itself.
\<close>

definition mongoId :: "string \<Rightarrow> string" where
  "mongoId productId' = (if take 8 productId' = ''product-'' then drop 8 productId' else productId')"

definition from_database :: "string \<Rightarrow> product \<Rightarrow> resolved_product" where
  "from_database productId' dbProduct =
     \<lparr>rp_id = productId', rp_name = p_name dbProduct, rp_category = p_category dbProduct,
      rp_brand = Some (p_brand dbProduct), rp_price = sellingPrice dbProduct,
      rp_warranty = p_warranty dbProduct, rp_stockQty = Some (stockQty dbProduct),
      rp_source = ''database''\<rparr>"

definition from_catalog :: "catalog_part \<Rightarrow> resolved_product" where
  "from_catalog predefinedPart =
     \<lparr>rp_id = cp_id predefinedPart, rp_name = cp_name predefinedPart,
      rp_category = cp_category predefinedPart, rp_brand = None, rp_price = cp_price predefinedPart,
      rp_warranty = None, rp_stockQty = None, rp_source = ''predefined''\<rparr>"

text \<open>
  One turn of the loop body: the persisted lookup inside \<^verbatim>\<open>try\<close> (a rejected lookup
  is swallowed by the empty \<^verbatim>\<open>catch\<close>), then the catalog by the original id.
\<close>

definition resolve_one :: "(string \<Rightarrow> bool) \<Rightarrow> products \<Rightarrow> catalog \<Rightarrow> string \<Rightarrow> resolved_product option" where
  "resolve_one valid prods getPartById productId' =
     (let productData =
            (case findById valid prods (mongoId productId') of
               Inl _ \<Rightarrow> None
             | Inr None \<Rightarrow> None
             | Inr (Some dbProduct) \<Rightarrow> Some (from_database productId' dbProduct))
      in case productData of
           Some d \<Rightarrow> Some d
         | None \<Rightarrow>
           (case getPartById productId' of
              None \<Rightarrow> None
            | Some predefinedPart \<Rightarrow> Some (from_catalog predefinedPart)))"

fun resolve_loop ::
  "(string \<Rightarrow> bool) \<Rightarrow> products \<Rightarrow> catalog \<Rightarrow> string list \<Rightarrow> resolved_product list \<times> string list
     \<Rightarrow> resolved_product list \<times> string list" where
  "resolve_loop valid prods cat [] acc = acc"
| "resolve_loop valid prods cat (productId' # rest) (resolvedProducts, notFoundIds) =
     (case resolve_one valid prods cat productId' of
        Some productData \<Rightarrow> resolve_loop valid prods cat rest (resolvedProducts @ [productData], notFoundIds)
      | None \<Rightarrow> resolve_loop valid prods cat rest (resolvedProducts, notFoundIds @ [productId']))"

text \<open>The handler; \<open>None\<close> is a body whose \<^verbatim>\<open>productIds\<close> is not an array.\<close>

definition resolve_by_ids ::
  "(string \<Rightarrow> bool) \<Rightarrow> products \<Rightarrow> catalog \<Rightarrow> string list option
     \<Rightarrow> (resolved_product list \<times> string list) response" where
  "resolve_by_ids valid prods cat productIds =
     (case productIds of
        None \<Rightarrow> Fail 400 [(''error'', ''productIds must be an array'')]
      | Some ids \<Rightarrow> Json (resolve_loop valid prods cat ids ([], [])))"

text \<open>The persisted record, if any, that the stripped identifier finds.\<close>

definition persisted_match :: "(string \<Rightarrow> bool) \<Rightarrow> products \<Rightarrow> string \<Rightarrow> product option" where
  "persisted_match valid prods productId' =
     (if valid (mongoId productId') then prods (mongoId productId') else None)"

section \<open>Invoice creation from a service visit\<close>

text \<open>The documents the handler reads: customers, vehicles, service visits, coupons.\<close>

record customer =
  cu_referenceCode :: string
  cu_fullName :: string
  cu_mobileNumber :: string
  cu_alternativeNumber :: "string option"
  cu_email :: "string option"
  cu_address :: "string option"
  cu_city :: "string option"
  cu_taluka :: "string option"
  cu_district :: "string option"
  cu_state :: "string option"
  cu_pinCode :: "string option"
  cu_referralSource :: "string option"
  cu_isVerified :: bool
  cu_otp :: "string option"
  cu_otpExpiresAt :: "timestamp option"
  cu_registeredBy :: "string option"
  cu_registeredByRole :: "string option"
  cu_createdAt :: timestamp

record vehicle_card =
  partId :: string
  partName :: string
  fileData :: string

record vehicle =
  v_oid :: string
  vehicleId :: "string option"
  v_customerId :: string
  vehicleNumber :: "string option"
  vehicleBrand :: "string option"
  vehicleModel :: "string option"
  customModel :: "string option"
  variant :: "string option"
  color :: "string option"
  yearOfPurchase :: "int option"
  vehiclePhoto :: "string option"
  isNewVehicle :: "bool option"
  chassisNumber :: "string option"
  selectedParts :: "string list option"
  warrantyCards :: "vehicle_card list option"
  v_createdAt :: timestamp

record stage_timestamps =
  ts_inquired :: "timestamp option"
  ts_working :: "timestamp option"
  ts_waiting :: "timestamp option"
  ts_completed :: "timestamp option"

record service_visit =
  sv_customerId :: "string option"
  vehicleReg :: string
  sv_status :: string
  sv_notes :: "string option"
  beforeImages :: "string list"
  afterImages :: "string list"
  handlerIds :: "string list"
  partsUsed :: "(string \<times> money) list"
  sv_totalAmount :: "money option"
  stageTimestamps :: stage_timestamps

record coupon_usage =
  u_invoiceId :: string
  u_customerId :: string
  discountApplied :: money

record coupon =
  c_oid :: string
  code :: string
  c_discountType :: string
  c_discountValue :: money
  usedCount :: nat
  usageHistory :: "coupon_usage list"

record shop =
  visits :: "string \<rightharpoonup> service_visit"
  customers :: "string \<rightharpoonup> customer"
  vehicles :: "vehicle list"
  coupons :: "coupon list"
  invoices :: invoices

record create_body =
  b_serviceVisitId :: string
  b_items :: "invoice_item list"
  b_couponCode :: "string option"
  b_taxRate :: "money option"
  b_notes :: "string option"
  b_terms :: "string option"

text \<open>\<^verbatim>\<open>toUpperCase()\<close> on ASCII text.\<close>

definition toUpperCase :: "string \<Rightarrow> string" where
  "toUpperCase = map (\<lambda>c. if CHR ''a'' \<le> c \<and> c \<le> CHR ''z'' then char_of (of_char c - (32::nat)) else c)"

text \<open>
  \<^verbatim>\<open>.populate('customerId')\<close>: the referenced customer with its id, \<open>None\<close>
  when the visit has no reference or the referenced customer is gone.
\<close>

definition populate_customer :: "shop \<Rightarrow> service_visit \<Rightarrow> (string \<times> customer) option" where
  "populate_customer st sv =
     (case sv_customerId sv of
        None \<Rightarrow> None
      | Some cid \<Rightarrow> (case customers st cid of None \<Rightarrow> None | Some c \<Rightarrow> Some (cid, c)))"

definition customer_snapshot :: "customer \<Rightarrow> customer_details" where
  "customer_snapshot c =
     \<lparr>cd_referenceCode = cu_referenceCode c, cd_fullName = cu_fullName c,
      cd_mobileNumber = cu_mobileNumber c, cd_alternativeNumber = cu_alternativeNumber c,
      cd_email = cu_email c, cd_address = cu_address c, cd_city = cu_city c,
      cd_taluka = cu_taluka c, cd_district = cu_district c, cd_state = cu_state c,
      cd_pinCode = cu_pinCode c, cd_referralSource = cu_referralSource c,
      cd_isVerified = cu_isVerified c, cd_registrationDate = cu_createdAt c\<rparr>"

definition vehicle_snapshot :: "vehicle \<Rightarrow> vehicle_details" where
  "vehicle_snapshot v =
     \<lparr>vd_vehicleId = vehicleId v, vd_vehicleNumber = vehicleNumber v,
      vd_vehicleBrand = vehicleBrand v, vd_vehicleModel = vehicleModel v,
      vd_customModel = customModel v, vd_variant = variant v, vd_color = color v,
      vd_yearOfPurchase = yearOfPurchase v, vd_vehiclePhoto = vehiclePhoto v,
      vd_isNewVehicle = isNewVehicle v, vd_chassisNumber = chassisNumber v,
      vd_selectedParts = selectedParts v, vd_vehicleRegistrationDate = v_createdAt v\<rparr>"

text \<open>
  The coupon branch (\<^verbatim>\<open>if (couponCode) { ... }\<close>): the coupon that is applied, if any.
  \<open>isValid\<close> is \<^verbatim>\<open>coupon.isValid(customerId, subtotal).valid\<close>, a method of the
  Coupon model, as is \<open>calculateDiscount\<close>; both are parameters.
\<close>

definition applied_coupon ::
  "(coupon \<Rightarrow> string \<Rightarrow> money \<Rightarrow> bool) \<Rightarrow> coupon list \<Rightarrow> string option \<Rightarrow> string \<Rightarrow> money \<Rightarrow> coupon option" where
  "applied_coupon isValid cs couponCode' cid subtotal' =
     (case couponCode' of
        None \<Rightarrow> None
      | Some cc \<Rightarrow>
        if cc = [] then None
        else (case find (\<lambda>c. code c = toUpperCase cc) cs of
                None \<Rightarrow> None
              | Some c \<Rightarrow> if isValid c cid subtotal' then Some c else None))"

text \<open>
  \<^verbatim>\<open>POST /api/invoices/from-service-visit\<close>. \<open>new_id\<close> is the id the store gives
  the new invoice, \<open>defaults\<close> the document \<^verbatim>\<open>new Invoice({})\<close> would be (the schema
  defaults of the fields the handler does not pass).
\<close>

definition createFromServiceVisit ::
  "session \<Rightarrow> string \<Rightarrow> invoice \<Rightarrow> (string \<Rightarrow> bool) \<Rightarrow> (coupon \<Rightarrow> string \<Rightarrow> money \<Rightarrow> bool)
     \<Rightarrow> (coupon \<Rightarrow> money \<Rightarrow> money) \<Rightarrow> shop \<Rightarrow> create_body \<Rightarrow> shop \<times> invoice response" where
  "createFromServiceVisit s new_id defaults valid isValid calculateDiscount st b =
    (case findById valid (visits st) (b_serviceVisitId b) of
       Inl _ \<Rightarrow> (st, Fail 500 [(''error'', ''Failed to create invoice'')])
     | Inr None \<Rightarrow> (st, Fail 404 [(''error'', ''Service visit not found'')])
     | Inr (Some serviceVisit) \<Rightarrow>
       (case populate_customer st serviceVisit of
          None \<Rightarrow> (st, Fail 400 [(''error'', ''Service visit has no associated customer'')])
        | Some (cid, cust) \<Rightarrow>
          if sv_status serviceVisit \<noteq> ''completed'' then
            (st, Fail 400 [(''error'', ''Can only generate invoice for completed service visits'')])
          else
            let vs = filter (\<lambda>v. v_customerId v = cid) (vehicles st);
                subtotal' = foldl (\<lambda>sum item. fadd sum (total item)) 0 (b_items b);
                applied = applied_coupon isValid (coupons st) (b_couponCode b) cid subtotal';
                discountAmount' = (case applied of None \<Rightarrow> 0 | Some c \<Rightarrow> calculateDiscount c subtotal');
                totalAmount' = fsub subtotal' discountAmount';
                iv = defaults\<lparr>
                       serviceVisitId := b_serviceVisitId b,
                       customerId := Some cid,
                       customerDetails := Some (customer_snapshot cust),
                       vehicleDetails := Some (map vehicle_snapshot vs),
                       items := b_items b,
                       subtotal := subtotal',
                       discountType := (case applied of None \<Rightarrow> ''none'' | Some c \<Rightarrow> c_discountType c),
                       discountValue := (case applied of None \<Rightarrow> 0 | Some c \<Rightarrow> c_discountValue c),
                       discountAmount := discountAmount',
                       couponCode := map_option toUpperCase (b_couponCode b),
                       couponId := map_option c_oid applied,
                       taxRate := (case b_taxRate b of None \<Rightarrow> 18 | Some r \<Rightarrow> r),
                       taxAmount := 0,
                       totalAmount := totalAmount',
                       dueAmount := totalAmount',
                       createdBy := userId s,
                       status := ''pending_approval'',
                       inv_notes := b_notes b,
                       inv_terms := b_terms b\<rparr>;
                st1 = st\<lparr>invoices := (invoices st)(new_id \<mapsto> iv)\<rparr>;
                st2 = (case applied of
                         None \<Rightarrow> st1
                       | Some c \<Rightarrow>
                         st1\<lparr>coupons :=
                               map (\<lambda>c'. if c_oid c' = c_oid c
                                          then c'\<lparr>usedCount := usedCount c' + 1,
                                                  usageHistory := usageHistory c' @
                                                    [\<lparr>u_invoiceId = new_id, u_customerId = cid,
                                                      discountApplied = discountAmount'\<rparr>]\<rparr>
                                          else c')
                                 (coupons st1)\<rparr>)
            in (st2, Json iv)))"

section \<open>Warranty-card upload and vehicle sync\<close>

record upload_body =
  ub_itemIndex :: "int option"
  ub_warrantyCardData :: "string option"
  ub_filename :: "string option"

record upload_ok =
  message :: string
  warrantyCard :: warranty_card

text \<open>
  \<^verbatim>\<open>warrantyCardData.match(/^data:([^;]+);base64,(.+)$/)\<close>: after \<open>data:\<close> a
  non-empty media type without \<open>;\<close>, the literal \<open>;base64,\<close>, and a non-empty
  payload without line terminators; the result is the media type and the payload.
\<close>

definition line_terminator :: "char \<Rightarrow> bool" where
  "line_terminator c \<longleftrightarrow> c = CHR 0x0A \<or> c = CHR 0x0D"

definition dataUrlMatch :: "string \<Rightarrow> (string \<times> string) option" where
  "dataUrlMatch s =
     (if take 5 s \<noteq> ''data:'' then None
      else
        let rest = drop 5 s;
            mimeType = takeWhile (\<lambda>c. c \<noteq> CHR '';'') rest;
            tail = dropWhile (\<lambda>c. c \<noteq> CHR '';'') rest;
            base64Data = drop 8 tail
        in if mimeType = [] \<or> take 8 tail \<noteq> '';base64,'' \<or> base64Data = []
              \<or> list_ex line_terminator base64Data
           then None else Some (mimeType, base64Data))"

definition allowedMimeTypes :: "string list" where
  "allowedMimeTypes = [''image/jpeg'', ''image/jpg'', ''image/png'', ''image/gif'', ''image/webp'',
                       ''application/pdf'']"

definition maxSizeBytes :: int where
  "maxSizeBytes = 50 * 1024 * 1024"

text \<open>\<^verbatim>\<open>Math.ceil((base64Data.length * 3) / 4)\<close>.\<close>

definition fileSizeBytes :: "string \<Rightarrow> int" where
  "fileSizeBytes base64Data = (int (length base64Data) * 3 + 3) div 4"

text \<open>\<^verbatim>\<open>Array.prototype.findIndex\<close>, with \<open>None\<close> for \<open>-1\<close>.\<close>

fun findIndex :: "('a \<Rightarrow> bool) \<Rightarrow> 'a list \<Rightarrow> nat option" where
  "findIndex P [] = None"
| "findIndex P (x # xs) = (if P x then Some 0 else map_option Suc (findIndex P xs))"

text \<open>
  The upsert of the sync loop: the entry found by \<open>partId\<close> is overwritten in place,
  and only when none is found is the new entry pushed.
\<close>

definition upsert_card :: "string \<Rightarrow> string \<Rightarrow> string \<Rightarrow> vehicle_card list \<Rightarrow> vehicle_card list" where
  "upsert_card productIdStr name' data cards =
     (let entry = \<lparr>partId = productIdStr, partName = name', fileData = data\<rparr>
      in case findIndex (\<lambda>wc. partId wc = productIdStr) cards of
           Some existingIndex \<Rightarrow> cards[existingIndex := entry]
         | None \<Rightarrow> cards @ [entry])"

text \<open>
  \<^verbatim>\<open>invoiceVehicleIds\<close>: the non-empty vehicle ids of the invoice's vehicle snapshots.
\<close>

definition invoiceVehicleIds :: "invoice \<Rightarrow> string list" where
  "invoiceVehicleIds iv =
     List.map_filter (\<lambda>vd. case vd_vehicleId vd of None \<Rightarrow> None | Some i \<Rightarrow> if i = [] then None else Some i)
       (case vehicleDetails iv of None \<Rightarrow> [] | Some vds \<Rightarrow> vds)"

text \<open>
  The two tests of the loop body that decide whether a vehicle of the customer takes
  the card: its identity is among the invoice's vehicle ids, and its selected parts hold
  the product id.
\<close>

definition sync_applies :: "string list \<Rightarrow> string \<Rightarrow> vehicle \<Rightarrow> bool" where
  "sync_applies ids productIdStr vehicle' \<longleftrightarrow>
     ((case vehicleId vehicle' of None \<Rightarrow> False | Some i \<Rightarrow> i \<in> set ids) \<or> v_oid vehicle' \<in> set ids)
     \<and> (case selectedParts vehicle' of None \<Rightarrow> False | Some ps \<Rightarrow> productIdStr \<in> set ps)"

definition sync_vehicle :: "string list \<Rightarrow> string \<Rightarrow> string \<Rightarrow> string \<Rightarrow> string \<Rightarrow> vehicle \<Rightarrow> vehicle" where
  "sync_vehicle ids cid productIdStr name' data vehicle' =
     (if v_customerId vehicle' = cid \<and> sync_applies ids productIdStr vehicle' then
        vehicle'\<lparr>warrantyCards :=
                   Some (upsert_card productIdStr name' data
                           (case warrantyCards vehicle' of None \<Rightarrow> [] | Some cs \<Rightarrow> cs))\<rparr>
      else vehicle')"

text \<open>
  The checks on the request body, made before the invoice is read: the error to send,
  or the item index, the data URL and the file name.
\<close>

definition upload_checks :: "upload_body \<Rightarrow> (nat \<times> (string \<times> string) list) + (int \<times> string \<times> string)" where
  "upload_checks b =
    (case (ub_itemIndex b, ub_warrantyCardData b, ub_filename b) of
       (Some itemIndex, Some warrantyCardData, Some filename') \<Rightarrow>
         if warrantyCardData = [] \<or> filename' = [] then
           Inl (400, [(''error'', ''Missing required fields'')])
         else if take 5 warrantyCardData \<noteq> ''data:'' then
           Inl (400, [(''error'', ''Invalid file data format'')])
         else
           (case dataUrlMatch warrantyCardData of
              None \<Rightarrow> Inl (400, [(''error'', ''Invalid base64 format'')])
            | Some (mimeType, base64Data) \<Rightarrow>
              if mimeType \<notin> set allowedMimeTypes then
                Inl (400, [(''error'', ''Invalid file type. Only images and PDFs are allowed'')])
              else if fileSizeBytes base64Data > maxSizeBytes then
                Inl (400, [(''error'', ''File size exceeds 50MB limit'')])
              else Inr (itemIndex, warrantyCardData, filename'))
     | _ \<Rightarrow> Inl (400, [(''error'', ''Missing required fields'')]))"

text \<open>
  The sync block that follows the save of the invoice
  (\<^verbatim>\<open>if (item.productId && invoice.customerId) { ... }\<close>). Each vehicle document that
  the loop saves replaces its stored version; the documents keep their places.
\<close>

definition sync_card :: "shop \<Rightarrow> invoice \<Rightarrow> invoice_item \<Rightarrow> string \<Rightarrow> shop" where
  "sync_card st iv item warrantyCardData =
     (case (productId item, customerId iv) of
        (Some productIdStr, Some cid) \<Rightarrow>
          if productIdStr = [] \<or> invoiceVehicleIds iv = [] then st
          else st\<lparr>vehicles :=
                    map (sync_vehicle (invoiceVehicleIds iv) cid productIdStr (item_name item) warrantyCardData)
                      (vehicles st)\<rparr>
      | _ \<Rightarrow> st)"

text \<open>\<^verbatim>\<open>POST /api/invoices/:id/warranty-cards\<close>.\<close>

definition upload_warranty_card ::
  "(string \<Rightarrow> bool) \<Rightarrow> timestamp \<Rightarrow> shop \<Rightarrow> string \<Rightarrow> upload_body \<Rightarrow> shop \<times> upload_ok response" where
  "upload_warranty_card valid now st iid b =
    (case upload_checks b of
       Inl (c, e) \<Rightarrow> (st, Fail c e)
     | Inr (itemIndex, warrantyCardData, filename') \<Rightarrow>
       (case findById valid (invoices st) iid of
          Inl _ \<Rightarrow> (st, Fail 500 [(''error'', ''Failed to upload warranty card'')])
        | Inr None \<Rightarrow> (st, Fail 404 [(''error'', ''Invoice not found'')])
        | Inr (Some iv) \<Rightarrow>
          if itemIndex < 0 \<or> itemIndex \<ge> int (length (items iv)) then
            (st, Fail 400 [(''error'', ''Invalid item index'')])
          else
            let k = nat itemIndex;
                item = items iv ! k;
                card = \<lparr>url = warrantyCardData, filename = filename', uploadedAt = now\<rparr>;
                item1 = item\<lparr>item_warrantyCards :=
                               Some ((case item_warrantyCards item of None \<Rightarrow> [] | Some cs \<Rightarrow> cs)
                                     @ [card])\<rparr>;
                iv1 = iv\<lparr>items := (items iv)[k := item1]\<rparr>;
                st1 = st\<lparr>invoices := (invoices st)(iid \<mapsto> iv1)\<rparr>
            in (sync_card st1 iv1 item1 warrantyCardData,
                Json \<lparr>message = ''Warranty card uploaded successfully'', warrantyCard = card\<rparr>)))"

text \<open>A sequence of uploads, each with its clock reading, invoice id and body.\<close>

fun upload_all :: "(string \<Rightarrow> bool) \<Rightarrow> shop \<Rightarrow> (timestamp \<times> string \<times> upload_body) list \<Rightarrow> shop" where
  "upload_all valid st [] = st"
| "upload_all valid st ((now, iid, b) # us) =
     upload_all valid (fst (upload_warranty_card valid now st iid b)) us"

text \<open>
  An upload for product \<open>p\<close> that syncs to the \<open>j\<close>-th vehicle document: it is
  accepted, its line item references \<open>p\<close>, and the sync loop's tests pass for that
  vehicle.
\<close>

definition syncs_to :: "(string \<Rightarrow> bool) \<Rightarrow> shop \<Rightarrow> timestamp \<times> string \<times> upload_body \<Rightarrow> nat \<Rightarrow> string \<Rightarrow> bool" where
  "syncs_to valid st u j p =
     (case u of (now, iid, b) \<Rightarrow>
        accepted (snd (upload_warranty_card valid now st iid b))
        \<and> j < length (vehicles st) \<and> p \<noteq> []
        \<and> (case (invoices st iid, ub_itemIndex b) of
              (Some iv, Some i) \<Rightarrow>
                productId (items iv ! nat i) = Some p
                \<and> invoiceVehicleIds iv \<noteq> []
                \<and> (case customerId iv of
                      None \<Rightarrow> False
                    | Some cid \<Rightarrow> v_customerId (vehicles st ! j) = cid
                                  \<and> sync_applies (invoiceVehicleIds iv) p (vehicles st ! j))
            | _ \<Rightarrow> False))"

fun all_sync_to :: "(string \<Rightarrow> bool) \<Rightarrow> shop \<Rightarrow> (timestamp \<times> string \<times> upload_body) list \<Rightarrow> nat \<Rightarrow> string \<Rightarrow> bool" where
  "all_sync_to valid st [] j p = True"
| "all_sync_to valid st (u # us) j p =
     (syncs_to valid st u j p
      \<and> all_sync_to valid (fst (upload_warranty_card valid (fst u) st (fst (snd u)) (snd (snd u)))) us j p)"

text \<open>The number of entries keyed by a part id in a vehicle's \<open>warrantyCards\<close>.\<close>

definition count_part :: "string \<Rightarrow> vehicle \<Rightarrow> nat" where
  "count_part p v =
     length (filter (\<lambda>wc. partId wc = p) (case warrantyCards v of None \<Rightarrow> [] | Some cs \<Rightarrow> cs))"

section \<open>Service-visit status updates\<close>

subsection \<open>The endpoint\<close>

text \<open>The body of \<^verbatim>\<open>PATCH /api/service-visits/:id\<close>; an absent field is \<open>None\<close>.\<close>

record patch_body =
  pb_status :: "string option"
  pb_notes :: "string option"
  pb_beforeImages :: "string list option"
  pb_afterImages :: "string list option"
  pb_handlerIds :: "string list option"
  pb_partsUsed :: "(string \<times> money) list option"
  pb_totalAmount :: "money option"

text \<open>
  The three regular expressions of \<^verbatim>\<open>validateImages\<close>:
  \<^verbatim>\<open>/^https?:\/\//\<close>, \<^verbatim>\<open>/^data:image\/(png|jpeg|jpg|gif|webp);base64,/\<close> (the
  result is what is left of the string once the match is removed), and
  \<^verbatim>\<open>/^[A-Za-z0-9+/]*={0,2}$/\<close>.
\<close>

definition httpUrlRegex :: "string \<Rightarrow> bool" where
  "httpUrlRegex img \<longleftrightarrow> take 7 img = ''http://'' \<or> take 8 img = ''https://''"

definition dataUriRegex :: "string \<Rightarrow> string option" where
  "dataUriRegex img =
     (case find (\<lambda>p. take (length p) img = p)
             [''data:image/png;base64,'', ''data:image/jpeg;base64,'', ''data:image/jpg;base64,'',
              ''data:image/gif;base64,'', ''data:image/webp;base64,''] of
        None \<Rightarrow> None
      | Some p \<Rightarrow> Some (drop (length p) img))"

definition is_base64_char :: "char \<Rightarrow> bool" where
  "is_base64_char c \<longleftrightarrow>
     (CHR ''A'' \<le> c \<and> c \<le> CHR ''Z'') \<or> (CHR ''a'' \<le> c \<and> c \<le> CHR ''z'')
     \<or> (CHR ''0'' \<le> c \<and> c \<le> CHR ''9'') \<or> c = CHR ''+'' \<or> c = CHR ''/''"

definition base64Regex :: "string \<Rightarrow> bool" where
  "base64Regex s \<longleftrightarrow> dropWhile is_base64_char s \<in> set [[], ''='', ''=='']"

text \<open>
  One image passes when it is empty, an http(s) URL, or a data URI of an allowed image
  type whose content is base64 and at most 50 MB
  (\<^verbatim>\<open>(length * 0.75) / (1024 * 1024) <= 50\<close>).
\<close>

definition validImage :: "string \<Rightarrow> bool" where
  "validImage img \<longleftrightarrow>
     img = [] \<or> httpUrlRegex img
     \<or> (case dataUriRegex img of
           None \<Rightarrow> False
         | Some base64Content \<Rightarrow>
             base64Regex base64Content \<and> int (length base64Content) * 3 \<le> 50 * (1024 * 1024) * 4)"

definition validateImages :: "string list \<Rightarrow> bool" where
  "validateImages images = list_all validImage images"

text \<open>The field assignments between the validation and the save.\<close>

definition apply_body :: "service_visit \<Rightarrow> patch_body \<Rightarrow> service_visit" where
  "apply_body visit b =
     visit\<lparr>sv_status := (case pb_status b of None \<Rightarrow> sv_status visit | Some x \<Rightarrow> x),
            sv_notes := (case pb_notes b of None \<Rightarrow> sv_notes visit | Some x \<Rightarrow> Some x),
            beforeImages := (case pb_beforeImages b of None \<Rightarrow> beforeImages visit | Some x \<Rightarrow> x),
            afterImages := (case pb_afterImages b of None \<Rightarrow> afterImages visit | Some x \<Rightarrow> x),
            handlerIds := (case pb_handlerIds b of None \<Rightarrow> handlerIds visit | Some x \<Rightarrow> x),
            partsUsed := (case pb_partsUsed b of None \<Rightarrow> partsUsed visit | Some x \<Rightarrow> x),
            sv_totalAmount := (case pb_totalAmount b of None \<Rightarrow> sv_totalAmount visit | Some x \<Rightarrow> Some x)\<rparr>"

definition images_ok :: "patch_body \<Rightarrow> bool" where
  "images_ok b \<longleftrightarrow>
     (case pb_beforeImages b of None \<Rightarrow> True | Some imgs \<Rightarrow> validateImages imgs)
     \<and> (case pb_afterImages b of None \<Rightarrow> True | Some imgs \<Rightarrow> validateImages imgs)"

text \<open>
  What the handler does after the save, inside the same \<^verbatim>\<open>try\<close>: the two
  \<^verbatim>\<open>populate\<close> calls, \<^verbatim>\<open>notifyServiceVisitStatus\<close> (on a status change) and
  \<^verbatim>\<open>logActivity\<close>. Each may throw; \<open>False\<close> stands for a call that does.
\<close>

record patch_env =
  p_populate_ok :: bool
  p_notify_ok :: bool
  p_log_ok :: bool

text \<open>
  The handler. \<^verbatim>\<open>visit.save()\<close> runs the validators and the \<^verbatim>\<open>pre('save')\<close>
  hook of the ServiceVisit model, which is not among the sources: \<open>hook old new\<close> is
  their outcome on the stored document \<open>old\<close> and the modified one \<open>new\<close>, either the
  document to persist or the error thrown. Whatever is thrown inside the handler is
  answered by its \<^verbatim>\<open>catch\<close> with 400: before the save with nothing written, after
  it with the visit already stored. The answer of a completed request carries the saved
  visit and whether the status-change notification was sent.
\<close>

definition patch_service_visit ::
  "(service_visit \<Rightarrow> service_visit \<Rightarrow> string + service_visit) \<Rightarrow> (string \<Rightarrow> bool) \<Rightarrow> patch_env
     \<Rightarrow> (string \<rightharpoonup> service_visit) \<Rightarrow> string \<Rightarrow> patch_body
     \<Rightarrow> (string \<rightharpoonup> service_visit) \<times> (service_visit \<times> bool) response" where
  "patch_service_visit hook valid post db vid b =
    (case findById valid db vid of
       Inl _ \<Rightarrow> (db, Fail 400 [(''error'', ''Failed to update service visit'')])
     | Inr None \<Rightarrow> (db, Fail 404 [(''error'', ''Service visit not found'')])
     | Inr (Some visit) \<Rightarrow>
       if (case pb_beforeImages b of None \<Rightarrow> False | Some imgs \<Rightarrow> \<not> validateImages imgs) then
         (db, Fail 400 [(''error'', ''Invalid before images: must be valid base64 image data (PNG, JPEG, GIF, WebP) under 50MB per image'')])
       else if (case pb_afterImages b of None \<Rightarrow> False | Some imgs \<Rightarrow> \<not> validateImages imgs) then
         (db, Fail 400 [(''error'', ''Invalid after images: must be valid base64 image data (PNG, JPEG, GIF, WebP) under 50MB per image'')])
       else
         let previousStatus = sv_status visit
         in (case hook visit (apply_body visit b) of
               Inl _ \<Rightarrow> (db, Fail 400 [(''error'', ''Failed to update service visit'')])
             | Inr saved \<Rightarrow>
                 let statusChanged = (sv_status saved \<noteq> [] \<and> previousStatus \<noteq> sv_status saved)
                 in if \<not> p_populate_ok post \<or> (statusChanged \<and> \<not> p_notify_ok post)
                       \<or> \<not> p_log_ok post then
                      (db(vid \<mapsto> saved), Fail 400 [(''error'', ''Failed to update service visit'')])
                    else (db(vid \<mapsto> saved), Json (saved, statusChanged))))"

text \<open>
  Modelled from the spec: the validation and the \<^verbatim>\<open>pre('save')\<close> hook that
  \<^verbatim>\<open>visit.save()\<close> runs in the ServiceVisit model (server/models/ServiceVisit, not
  among the sources; the handler's comment says of the hook that it updates
  \<open>stageTimestamps\<close>). Before a status change is persisted, a target other than
  \<open>inquired\<close> needs at least one handler, the targets \<open>working\<close> and \<open>waiting\<close> at
  least one before-image, and the target \<open>completed\<close> at least one after-image; an
  accepted status change sets the timestamp of the new phase to the current time and
  keeps the timestamps of the other phases.
\<close>

definition pre_save :: "timestamp \<Rightarrow> service_visit \<Rightarrow> service_visit \<Rightarrow> string + service_visit" where
  "pre_save now old new =
     (if sv_status new = sv_status old then Inr new
      else if sv_status new \<noteq> ''inquired'' \<and> handlerIds new = [] then Inl ''ValidationError''
      else if (sv_status new = ''working'' \<or> sv_status new = ''waiting'') \<and> beforeImages new = [] then
        Inl ''ValidationError''
      else if sv_status new = ''completed'' \<and> afterImages new = [] then Inl ''ValidationError''
      else
        let ts = stageTimestamps new;
            ts' = (if sv_status new = ''inquired'' then ts\<lparr>ts_inquired := Some now\<rparr>
                   else if sv_status new = ''working'' then ts\<lparr>ts_working := Some now\<rparr>
                   else if sv_status new = ''waiting'' then ts\<lparr>ts_waiting := Some now\<rparr>
                   else if sv_status new = ''completed'' then ts\<lparr>ts_completed := Some now\<rparr>
                   else ts)
        in Inr (new\<lparr>stageTimestamps := ts'\<rparr>))"

subsection \<open>The status-update form\<close>

text \<open>
  The state that \<^verbatim>\<open>handleStatusUpdate\<close> of the service-visits page reads: the visit
  being edited with its id, the chosen status and handlers, and the two image lists.
\<close>

record status_form =
  selectedService :: "(string \<times> service_visit) option"
  selectedStatus :: string
  selectedHandlers :: "string list"
  form_beforeImages :: "string list"
  form_afterImages :: "string list"

text \<open>
  What \<^verbatim>\<open>handleStatusUpdate\<close> does: nothing, a toast with title and description, or
  the PATCH request of \<^verbatim>\<open>updateServiceMutation\<close>.
\<close>

datatype form_outcome = NoAction | Toast string string | Mutate string patch_body

definition handleStatusUpdate :: "status_form \<Rightarrow> form_outcome" where
  "handleStatusUpdate f =
    (case selectedService f of
       None \<Rightarrow> NoAction
     | Some (sid, service) \<Rightarrow>
       if selectedStatus f = [] then NoAction
       else if selectedStatus f \<noteq> ''inquired'' \<and> selectedHandlers f = [] then
         Toast ''Validation Error'' ''Please select at least one service handler for this phase''
       else if (selectedStatus f = ''working'' \<or> selectedStatus f = ''waiting'')
               \<and> form_beforeImages f = [] then
         Toast ''Validation Error''
           (''Please upload at least one '' @ apostrophe @ ''Before'' @ apostrophe
              @ '' image before moving to this phase'')
       else if selectedStatus f = ''completed'' \<and> form_afterImages f = [] then
         Toast ''Validation Error''
           (''Please upload at least one '' @ apostrophe @ ''After'' @ apostrophe
              @ '' image before marking as completed'')
       else
         let handlersChanged = (sort (selectedHandlers f) \<noteq> sort (handlerIds service))
         in if selectedStatus f = sv_status service
               \<and> form_beforeImages f = beforeImages service
               \<and> form_afterImages f = afterImages service
               \<and> \<not> handlersChanged then
              Toast ''No Changes'' ''No changes detected''
            else
              Mutate sid \<lparr>pb_status = Some (selectedStatus f), pb_notes = None,
                          pb_beforeImages = Some (form_beforeImages f),
                          pb_afterImages = Some (form_afterImages f),
                          pb_handlerIds = Some (sort (selectedHandlers f)),
                          pb_partsUsed = None, pb_totalAmount = None\<rparr>)"

text \<open>The preconditions of the claim's phases, as the form tests them.\<close>

definition form_precondition :: "status_form \<Rightarrow> bool" where
  "form_precondition f \<longleftrightarrow>
     (selectedStatus f \<noteq> ''inquired'' \<longrightarrow> selectedHandlers f \<noteq> [])
     \<and> (selectedStatus f = ''working'' \<or> selectedStatus f = ''waiting'' \<longrightarrow> form_beforeImages f \<noteq> [])
     \<and> (selectedStatus f = ''completed'' \<longrightarrow> form_afterImages f \<noteq> [])"

text \<open>
  The same preconditions on the document about to be saved, for a target other than
  \<open>inquired\<close>.
\<close>

definition phase_precondition :: "service_visit \<Rightarrow> bool" where
  "phase_precondition new \<longleftrightarrow>
     handlerIds new \<noteq> []
     \<and> (sv_status new = ''working'' \<or> sv_status new = ''waiting'' \<longrightarrow> beforeImages new \<noteq> [])
     \<and> (sv_status new = ''completed'' \<longrightarrow> afterImages new \<noteq> [])"

section \<open>Sample data\<close>

text \<open>A sample invoice used to evaluate the definitions on concrete inputs.\<close>

definition inv0 :: invoice where
  "inv0 = \<lparr>serviceVisitId = ''v1'', customerId = Some ''c1'', customerDetails = None,
           vehicleDetails = None, items = [], subtotal = 500, discountType = ''none'',
           discountValue = 0, discountAmount = 0, couponCode = None, couponId = None,
           taxRate = 18, taxAmount = 0, totalAmount = 500, paidAmount = 0, dueAmount = 500,
           createdBy = ''u1'', status = ''approved'', paymentStatus = ''unpaid'',
           paymentMethod = None, payments = [], approvalStatus = None,
           pdfAccessToken = Some ''tok'', pdfTokenExpiry = Some 1000, pdfPath = None,
           inv_notes = None, inv_terms = None\<rparr>"

definition iid0 :: string where "iid0 = ''64b0000000000000000000e0''"

definition sess0 :: session where
  "sess0 = \<lparr>userId = ''u1'', userName = ''admin'', userRole = ''Admin''\<rparr>"





definition pid1 :: string where "pid1 = ''64b0000000000000000000a1''"
definition pid2 :: string where "pid2 = ''64b0000000000000000000a2''"
definition pid3 :: string where "pid3 = ''64b0000000000000000000a3''"

definition prods0 :: products where
  "prods0 = [pid1 \<mapsto> \<lparr>p_name = ''Battery'', p_category = ''Electrical'', p_brand = ''Exide'',
                       sellingPrice = 500, p_warranty = Some ''Up to 24 months, 2 services'', stockQty = 4\<rparr>,
             pid2 \<mapsto> \<lparr>p_name = ''Wiper'', p_category = ''Body'', p_brand = ''Bosch'',
                       sellingPrice = 90, p_warranty = None, stockQty = 9\<rparr>,
             pid3 \<mapsto> \<lparr>p_name = ''Horn'', p_category = ''Electrical'', p_brand = ''Hella'',
                       sellingPrice = 120, p_warranty = Some ''Lifetime'', stockQty = 1\<rparr>]"


definition item0 :: invoice_item where
  "item0 = \<lparr>item_type = ''product'', productId = Some pid1, item_name = ''Battery'', quantity = 1,
            unitPrice = 500, total = 500, hasWarranty = True, item_warrantyCards = None\<rparr>"

definition items0 :: "invoice_item list" where
  "items0 = [item0,
             item0\<lparr>productId := Some pid2, item_name := ''Wiper''\<rparr>,
             item0\<lparr>item_type := ''service'', item_name := ''Labour''\<rparr>,
             item0\<lparr>productId := Some ''brake-pads'', item_name := ''Brake pads''\<rparr>,
             item0\<lparr>productId := Some pid3, item_name := ''Horn''\<rparr>,
             item0\<lparr>hasWarranty := False\<rparr>]"

definition inv_pending :: invoice where
  "inv_pending = inv0\<lparr>status := ''pending_approval'', items := items0,
                       pdfAccessToken := None, pdfTokenExpiry := None\<rparr>"

definition env_fail :: approve_env where
  "env_fail = \<lparr>e_token = ''5f2a'', e_approvedAt = 1000, e_tokenTime = 1001, e_pdf = None,
               e_clock = (\<lambda>k. \<lparr>d_year = 2025, d_month = 10, d_day = 3 + k, d_ms = 7\<rparr>),
               e_warranty_ok = (\<lambda>w. True),
               e_notify_ok = False, e_log_ok = False\<rparr>"

definition iid_draft :: string where "iid_draft = ''64b0000000000000000000e2''"
definition iid_pending :: string where "iid_pending = ''64b0000000000000000000e3''"

definition db0 :: invoices where
  "db0 = [iid_draft \<mapsto> inv0\<lparr>status := ''draft''\<rparr>, iid0 \<mapsto> inv0, iid_pending \<mapsto> inv_pending]"

definition brake_pads :: catalog_part where
  "brake_pads = \<lparr>cp_id = ''brake-pads'', cp_name = ''Brake Pads'', cp_category = ''Brakes'', cp_price = 1500\<rparr>"

definition cat0 :: catalog where
  "cat0 = [''brake-pads'' \<mapsto> brake_pads,
           pid3 \<mapsto> \<lparr>cp_id = pid3, cp_name = ''Horn (catalog)'', cp_category = ''Electrical'', cp_price = 100\<rparr>]"

definition ids0 :: "string list" where
  "ids0 = [''product-'' @ pid1, ''brake-pads'', ''no-such-part'', pid3, ''product-zzz'']"

definition vid1 :: string where "vid1 = ''64b0000000000000000000f1''"
definition vid2 :: string where "vid2 = ''64b0000000000000000000f2''"
definition vid3 :: string where "vid3 = ''64b0000000000000000000f3''"
definition vid4 :: string where "vid4 = ''64b0000000000000000000f4''"
definition vid5 :: string where "vid5 = ''64b0000000000000000000f5''"
definition cid1 :: string where "cid1 = ''64b0000000000000000000c1''"

definition visit0 :: service_visit where
  "visit0 = \<lparr>sv_customerId = Some cid1, vehicleReg = ''MH12AB1234'', sv_status = ''completed'',
             sv_notes = None, beforeImages = [], afterImages = [], handlerIds = [],
             partsUsed = [], sv_totalAmount = None, stageTimestamps = \<lparr>ts_inquired = Some 1, ts_working = None, ts_waiting = None,
                                                     ts_completed = None\<rparr>\<rparr>"

definition customer0 :: customer where
  "customer0 = \<lparr>cu_referenceCode = ''CUST001'', cu_fullName = ''Asha Rao'',
                cu_mobileNumber = ''9000000001'', cu_alternativeNumber = None, cu_email = None,
                cu_address = None, cu_city = None, cu_taluka = None, cu_district = None,
                cu_state = None, cu_pinCode = None, cu_referralSource = None,
                cu_isVerified = True, cu_otp = None, cu_otpExpiresAt = None,
                cu_registeredBy = None, cu_registeredByRole = None, cu_createdAt = 5\<rparr>"

definition coupon0 :: coupon where
  "coupon0 = \<lparr>c_oid = ''64b0000000000000000000d1'', code = ''SAVE10'', c_discountType = ''percentage'',
              c_discountValue = 10, usedCount = 0, usageHistory = []\<rparr>"

definition shop0 :: shop where
  "shop0 = \<lparr>visits = [vid1 \<mapsto> visit0,
                       vid2 \<mapsto> visit0\<lparr>sv_status := ''working''\<rparr>,
                       vid3 \<mapsto> visit0\<lparr>sv_status := ''inquired''\<rparr>,
                       vid4 \<mapsto> visit0\<lparr>sv_customerId := None, sv_status := ''waiting''\<rparr>],
            customers = [cid1 \<mapsto> customer0], vehicles = [], coupons = [coupon0],
            invoices = Map.empty\<rparr>"

text \<open>A sample coupon policy: a minimum purchase of 1000, and a percentage discount.\<close>

definition isValid0 :: "coupon \<Rightarrow> string \<Rightarrow> money \<Rightarrow> bool" where
  "isValid0 c cid amount' \<longleftrightarrow> 1000 \<le> amount'"

definition calculateDiscount0 :: "coupon \<Rightarrow> money \<Rightarrow> money" where
  "calculateDiscount0 c amount' = round_double (round_double (amount' * c_discountValue c) / 100)"

definition body0 :: create_body where
  "body0 = \<lparr>b_serviceVisitId = vid1, b_items = [item0], b_couponCode = None, b_taxRate = None,
            b_notes = None, b_terms = None\<rparr>"

definition new0 :: string where "new0 = ''64b0000000000000000000e1''"

definition iid1 :: string where "iid1 = ''64b0000000000000000000e7''"

definition vehicle0 :: vehicle where
  "vehicle0 = \<lparr>v_oid = ''64b0000000000000000000b1'', vehicleId = Some ''VEH001'', v_customerId = cid1,
               vehicleNumber = Some ''MH12AB1234'', vehicleBrand = None, vehicleModel = None,
               customModel = None, variant = None, color = None, yearOfPurchase = None,
               vehiclePhoto = None, isNewVehicle = None, chassisNumber = None,
               selectedParts = Some [pid1, ''brake-pads''], warrantyCards = None, v_createdAt = 6\<rparr>"

definition shop_up :: shop where
  "shop_up = shop0\<lparr>vehicles := [vehicle0,
                                  vehicle0\<lparr>v_oid := ''64b0000000000000000000b2'', vehicleId := Some ''VEH002'',
                                           selectedParts := Some [pid3]\<rparr>],
                    invoices := [iid1 \<mapsto> inv0\<lparr>customerId := Some cid1, items := items0,
                                              vehicleDetails := Some [vehicle_snapshot vehicle0]\<rparr>]\<rparr>"

definition old_card :: "string \<Rightarrow> vehicle_card" where
  "old_card d = \<lparr>partId = pid1, partName = ''Battery'', fileData = d\<rparr>"

definition shop_dup :: shop where
  "shop_dup = shop_up\<lparr>vehicles :=
      [vehicle0\<lparr>warrantyCards := Some [old_card ''data:image/png;base64,Zm9v'',
                                        old_card ''data:image/png;base64,YmFy'']\<rparr>]\<rparr>"

definition upload0 :: "string \<Rightarrow> upload_body" where
  "upload0 d = \<lparr>ub_itemIndex = Some 0, ub_warrantyCardData = Some d, ub_filename = Some ''card''\<rparr>"

definition ups0 :: "(timestamp \<times> string \<times> upload_body) list" where
  "ups0 = [(10, iid1, upload0 ''data:image/png;base64,AAAA''),
           (20, iid1, upload0 ''data:application/pdf;base64,BBBB''),
           (30, iid1, upload0 ''data:image/webp;base64,CCCC'')]"

definition form0 :: status_form where
  "form0 = \<lparr>selectedService = Some (vid2, visit0\<lparr>sv_status := ''working'', handlerIds := [''e1'']\<rparr>),
            selectedStatus = ''completed'', selectedHandlers = [''e1''],
            form_beforeImages = [], form_afterImages = [''https://cdn.example/after.png'']\<rparr>"

definition completed_body :: patch_body where
  "completed_body = \<lparr>pb_status = Some ''completed'', pb_notes = None, pb_beforeImages = Some [],
                     pb_afterImages = Some [''https://cdn.example/after.png''],
                     pb_handlerIds = Some [''e1''], pb_partsUsed = None, pb_totalAmount = None\<rparr>"

definition post_ok :: patch_env where
  "post_ok = \<lparr>p_populate_ok = True, p_notify_ok = True, p_log_ok = True\<rparr>"

definition visits0 :: "string \<rightharpoonup> service_visit" where
  "visits0 = [vid2 \<mapsto> visit0\<lparr>sv_status := ''working'', handlerIds := [''e1'']\<rparr>]"

section \<open>Theorems: JavaScript numbers\<close>

text \<open>The bound \<open>2^1024\<close>, tested on the bit length of the integer part.\<close>

lemma finite_double_code [code]: "finite_double x \<longleftrightarrow> bitlen \<lfloor>\<bar>x\<bar>\<rfloor> \<le> 1024"
proof -
  have "bitlen \<lfloor>\<bar>x\<bar>\<rfloor> \<le> 1024 \<longleftrightarrow> \<lfloor>\<bar>x\<bar>\<rfloor> < 2 ^ 1024"
    by (simp add: bitlen_le_iff_power)
  also have "\<dots> \<longleftrightarrow> \<bar>x\<bar> < of_int (2 ^ 1024)"
    by (rule floor_less_iff)
  finally show ?thesis by (simp add: finite_double_def)
qed

lemma round_half_even_int: "round_half_even (of_int k) = k"
  by (simp add: round_half_even_def)

lemma pow2_neg: "pow2 (- int j) = 1 / 2 ^ j"
proof (cases "j = 0")
  case True
  then show ?thesis by (simp add: pow2_def)
next
  case False
  then have "\<not> 0 \<le> - int j" by simp
  then show ?thesis by (simp only: pow2_def if_False minus_minus nat_int)
qed

lemma double_exponent_int:
  assumes "0 < n" and "n < 2 ^ 53"
  shows "double_exponent (of_int n) = - int (nat (53 - bitlen n))"
    and "bitlen n \<le> 53"
proof -
  let ?b = "bitlen n"
  from bitlen_bounds [OF assms(1)] have lo: "2 ^ nat (?b - 1) \<le> n" by simp
  from assms(1) have b1: "1 \<le> ?b"
    by (simp add: bitlen_ge_iff_power)
  from assms(2) have "n < 2 ^ nat 53" by simp
  then show b53: "?b \<le> 53" by (simp add: bitlen_le_iff_power)
  define j where "j = nat (53 - ?b)"
  from b1 b53 have j: "int j = 53 - ?b" "j \<le> 52" by (simp_all add: j_def)
  have e0: "?b - bitlen 1 - 53 = - int (Suc j)"
    using j by (simp add: bitlen_alt_def)
  have "nat (?b - 1) + Suc j = 53" using j b1 by simp
  then have "(2::int) ^ 53 = 2 ^ nat (?b - 1) * 2 ^ Suc j"
    by (metis power_add)
  also have "\<dots> \<le> n * 2 ^ Suc j" using lo by simp
  finally have "(2::int) ^ 53 \<le> n * 2 ^ Suc j" .
  then have "(of_int ((2::int) ^ 53) :: rat) \<le> of_int (n * 2 ^ Suc j)"
    by (simp only: of_int_le_iff)
  moreover have "(of_int n :: rat) / pow2 (- int (Suc j)) = of_int (n * 2 ^ Suc j)"
    unfolding pow2_neg by simp
  ultimately have ge: "(2::rat) ^ 53 \<le> of_int n / pow2 (- int (Suc j))"
    by (simp only: of_int_power of_int_numeral)
  have "double_exponent (of_int n) = max (- int (Suc j) + 1) (- 1074)"
    using ge e0 by (simp add: double_exponent_def Let_def del: of_int_add)
  also have "\<dots> = - int j" using j by simp
  finally show "double_exponent (of_int n) = - int (nat (53 - ?b))" by (simp add: j_def)
qed

text \<open>Integers of magnitude below \<open>2^53\<close> are doubles: arithmetic on them is exact.\<close>

lemma round_double_nonneg_int:
  assumes "0 \<le> n" and "n < 2 ^ 53"
  shows "round_double (of_int n) = of_int n"
proof (cases "n = 0")
  case True
  then show ?thesis by (simp add: round_double_def)
next
  case False
  with assms have p: "0 < n" by simp
  define j where "j = nat (53 - bitlen n)"
  from double_exponent_int [OF p assms(2)] have e: "double_exponent (of_int n) = - int j"
    by (simp add: j_def)
  have "(of_int n :: rat) / pow2 (- int j) = of_int (n * 2 ^ j)"
    by (simp add: pow2_neg)
  then have "round_half_even (of_int n / pow2 (- int j)) = n * 2 ^ j"
    by (simp only: round_half_even_int)
  with p e show ?thesis
    by (simp add: round_double_def Let_def pow2_neg)
qed

lemma round_double_minus: "round_double (- x) = - round_double x"
  by (simp add: round_double_def Let_def)

lemma round_double_int:
  assumes "\<bar>n\<bar> < 2 ^ 53"
  shows "round_double (of_int n) = of_int n"
proof (cases "0 \<le> n")
  case True
  with assms show ?thesis by (simp add: round_double_nonneg_int)
next
  case False
  with assms have "0 \<le> - n" and "- n < 2 ^ 53" by simp_all
  then have "round_double (of_int (- n)) = of_int (- n)" by (rule round_double_nonneg_int)
  then show ?thesis by (simp add: round_double_minus)
qed

lemma is_double_int:
  assumes "\<bar>n\<bar> < 2 ^ 53"
  shows "is_double (of_int n)"
proof -
  from assms have "\<bar>n\<bar> < 2 ^ 1024" by simp
  then have "(of_int \<bar>n\<bar> :: rat) < of_int (2 ^ 1024)" by (simp only: of_int_less_iff)
  then have "\<bar>of_int n :: rat\<bar> < 2 ^ 1024" by simp
  with round_double_int [OF assms] show ?thesis by (simp add: is_double_def finite_double_def)
qed

section \<open>Theorems: payments\<close>

lemma setPaymentStatus_cases:
  assumes "valid iid" and "db iid = Some iv"
  shows "setPaymentStatus valid db iid ps pm = (db', r) \<Longrightarrow>
         (db' = db \<and> \<not> accepted r) \<or>
         (\<exists>iv'. db' = db(iid \<mapsto> iv') \<and> r = Json iv' \<and> ps \<noteq> None \<and> paymentStatus iv' = the ps
            \<and> the ps \<in> {''paid'', ''unpaid'', ''partial''}
            \<and> totalAmount iv' = totalAmount iv
            \<and> (the ps = ''paid'' \<longrightarrow> paidAmount iv' = totalAmount iv \<and> dueAmount iv' = 0)
            \<and> (the ps = ''unpaid'' \<longrightarrow> paidAmount iv' = 0 \<and> dueAmount iv' = totalAmount iv)
            \<and> (the ps = ''partial'' \<longrightarrow> paidAmount iv' = paidAmount iv \<and> dueAmount iv' = dueAmount iv))"
  using assms
  by (auto simp: setPaymentStatus_def findById_def accepted_def Let_def split: option.splits if_splits)









text \<open>
  C6 as stated fails: the direct toggle accepts the value \<open>partial\<close> and stores it.
\<close>

theorem toggle_partial_counterexample:
  "setPaymentStatus is_object_id [iid0 \<mapsto> inv0] iid0 (Some ''partial'') None
     = ([iid0 \<mapsto> inv0\<lparr>paymentStatus := ''partial''\<rparr>], Json (inv0\<lparr>paymentStatus := ''partial''\<rparr>))"
proof -
  have "is_object_id iid0" by code_simp
  then show ?thesis by (simp add: setPaymentStatus_def findById_def inv0_def Let_def)
qed

text \<open>
  C6, amended. An accepted call of the direct toggle stores exactly the payment status
  it was given, which is one of \<open>paid\<close>, \<open>unpaid\<close>, \<open>partial\<close>: the result is
  \<open>partial\<close> if and only if the caller asked for \<open>partial\<close>, and then the paid and
  due amounts are left as they were.
\<close>

theorem toggle_partial_only_on_request:
  assumes "valid iid" and "db iid = Some iv"
    and "setPaymentStatus valid db iid ps pm = (db', r)" and "accepted r"
  shows "\<exists>iv'. db' iid = Some iv' \<and> r = Json iv' \<and> ps = Some (paymentStatus iv')
           \<and> paymentStatus iv' \<in> {''paid'', ''unpaid'', ''partial''}
           \<and> (paymentStatus iv' = ''partial'' \<longleftrightarrow> ps = Some ''partial'')
           \<and> (ps = Some ''partial'' \<longrightarrow>
                 paidAmount iv' = paidAmount iv \<and> dueAmount iv' = dueAmount iv)"
  using setPaymentStatus_cases [of valid iid db iv ps pm db' r] assms by (auto simp: accepted_def)

theorem toggle_partial_only_on_request_witness:
  "\<exists>iv'. is_object_id iid0 \<and> accepted (Json iv' :: invoice response)
     \<and> setPaymentStatus is_object_id [iid0 \<mapsto> inv0] iid0 (Some ''partial'') (Some ''Cash'')
         = ([iid0 \<mapsto> iv'], Json iv')
     \<and> paymentStatus iv' = ''partial'' \<and> paidAmount iv' = 0 \<and> dueAmount iv' = 500"
proof -
  let ?db = "[iid0 \<mapsto> inv0]"
  let ?iv = "inv0\<lparr>paymentStatus := ''partial''\<rparr>"
  have h0: "is_object_id iid0" by code_simp
  have h1: "?db iid0 = Some inv0" by simp
  have h2: "setPaymentStatus is_object_id ?db iid0 (Some ''partial'') (Some ''Cash'') = ([iid0 \<mapsto> ?iv], Json ?iv)"
    using h0 by (simp add: setPaymentStatus_def findById_def inv0_def Let_def)
  have h3: "accepted (Json ?iv)" by (simp add: accepted_def)
  from toggle_partial_only_on_request [of is_object_id iid0 ?db inv0 "Some ''partial''" "Some ''Cash''"
      "[iid0 \<mapsto> ?iv]" "Json ?iv"] h0 h1 h2 h3
  have "paidAmount ?iv = paidAmount inv0 \<and> dueAmount ?iv = dueAmount inv0" by auto
  with h0 h2 h3 show ?thesis by (auto simp: inv0_def)
qed

section \<open>Theorems: public PDF retrieval\<close>

text \<open>
  C10. For an invoice whose status is not \<open>approved\<close>, the token-gated public PDF
  endpoint refuses the request with the not-approved error whatever token is presented
  and whatever the time is: the status check comes before the token comparison, so even
  the exactly matching, unexpired token is refused.
\<close>

theorem public_pdf_requires_approved:
  assumes "valid iid" and "db iid = Some iv" and "status iv \<noteq> ''approved''"
  shows "public_pdf valid db iid token now = Refused 400 ''PDF can only be accessed for approved invoices''"
  using assms by (simp add: public_pdf_def findById_def)

theorem public_pdf_requires_approved_witness:
  "is_object_id iid0
   \<and> pdfAccessToken (inv0\<lparr>status := ''pending_approval''\<rparr>) = Some ''tok''
   \<and> pdfTokenExpiry (inv0\<lparr>status := ''pending_approval''\<rparr>) = Some 1000
   \<and> public_pdf is_object_id [iid0 \<mapsto> inv0] iid0 (Some ''tok'') 999 = StreamPdf
   \<and> public_pdf is_object_id [iid0 \<mapsto> inv0\<lparr>status := ''pending_approval''\<rparr>] iid0 (Some ''tok'') 999
       = Refused 400 ''PDF can only be accessed for approved invoices''"
proof -
  let ?iv = "inv0\<lparr>status := ''pending_approval''\<rparr>"
  have h0: "is_object_id iid0" by code_simp
  have h1: "[iid0 \<mapsto> ?iv] iid0 = Some ?iv" by simp
  have h2: "status ?iv \<noteq> ''approved''" by simp
  have "public_pdf is_object_id [iid0 \<mapsto> inv0] iid0 (Some ''tok'') 999 = StreamPdf"
    using h0 by (simp add: public_pdf_def findById_def inv0_def)
  with public_pdf_requires_approved [of is_object_id iid0 "[iid0 \<mapsto> ?iv]" ?iv "Some ''tok''" 999] h0 h1 h2
  show ?thesis by (simp add: inv0_def)
qed

section \<open>Theorems: invoice approval and warranties\<close>

lemma decimal_value_snoc:
  "decimal_value (xs @ [x]) = 10 * decimal_value xs + (of_char x - 48)"
proof -
  let ?n = "length xs"
  have "(\<Sum>i < ?n. (of_char ((xs @ [x]) ! i) - 48) * 10 ^ (?n - i))
        = (\<Sum>i < ?n. 10 * ((of_char (xs ! i) - 48) * 10 ^ (?n - 1 - i)) :: int)"
  proof (rule sum.cong)
    fix i assume "i \<in> {..<?n}"
    then have i: "i < ?n" by simp
    then have "?n - i = Suc (?n - 1 - i)" by simp
    then have "(10::int) ^ (?n - i) = 10 * 10 ^ (?n - 1 - i)" by simp
    with i show "(of_char ((xs @ [x]) ! i) - 48) * 10 ^ (?n - i)
                 = (10 * ((of_char (xs ! i) - 48) * 10 ^ (?n - 1 - i)) :: int)"
      by (simp add: nth_append)
  qed simp
  then show ?thesis
    by (simp add: decimal_value_def sum_distrib_left)
qed

lemma foldl_horner:
  "foldl (\<lambda>n c. 10 * n + (of_char c - 48)) a ds = a * 10 ^ length ds + decimal_value ds"
proof (induction ds rule: rev_induct)
  case Nil
  then show ?case by (simp add: decimal_value_def)
next
  case (snoc x xs)
  then show ?case by (simp add: decimal_value_snoc algebra_simps)
qed

text \<open>The decimal value by Horner's rule, which also evaluates it.\<close>

lemma decimal_value_code [code]:
  "decimal_value ds = foldl (\<lambda>n c. 10 * n + (of_char c - 48)) 0 ds"
  by (simp add: foldl_horner)










lemma approve_pending:
  assumes "valid iid" and "db iid = Some iv" and "status iv = ''pending_approval''"
  shows "\<exists>iv'. r_invoices (approve s env valid prods db ws iid) iid = Some iv'
           \<and> r_response (approve s env valid prods db ws iid) = Json iv'
           \<and> status iv' = ''approved'' \<and> pdfAccessToken iv' = Some (e_token env)
           \<and> pdfTokenExpiry iv' = Some (e_tokenTime env + 7 * day_ms)
           \<and> items iv' = items iv \<and> customerId iv' = customerId iv
           \<and> r_warranties (approve s env valid prods db ws iid)
               = ws @ create_warranties valid prods (e_warranty_ok env) iid (customerId iv)
                        (e_clock env) (items iv)"
  using assms by (cases "e_pdf env") (simp_all add: approve_def findById_def Let_def)

text \<open>
  C2. approve() on an invoice whose status is not \<open>pending_approval\<close> answers with
  the error that carries the invoice's actual status and changes neither the invoice
  store nor the warranties; approve() on a \<open>pending_approval\<close> invoice ends with the
  stored invoice \<open>approved\<close>, holding the access token and an expiry seven days after
  the token was made, whatever the PDF, warranty and notification sub-steps do (the
  environment \<open>env\<close>, the id validity and the products are arbitrary).
\<close>

theorem approve_status_gate:
  assumes "valid iid" and "db iid = Some iv"
  shows "(status iv \<noteq> ''pending_approval'' \<longrightarrow>
            r_response (approve s env valid prods db ws iid)
              = Fail 400 [(''error'', ''Invoice is not pending approval''), (''currentStatus'', status iv)]
            \<and> r_invoices (approve s env valid prods db ws iid) = db
            \<and> r_warranties (approve s env valid prods db ws iid) = ws)
       \<and> (status iv = ''pending_approval'' \<longrightarrow>
            (\<exists>iv'. r_invoices (approve s env valid prods db ws iid) iid = Some iv'
               \<and> r_response (approve s env valid prods db ws iid) = Json iv'
               \<and> status iv' = ''approved'' \<and> pdfAccessToken iv' = Some (e_token env)
               \<and> pdfTokenExpiry iv' = Some (e_tokenTime env + 7 * day_ms)))"
proof (intro conjI impI)
  assume "status iv = ''pending_approval''"
  from approve_pending [of valid iid db iv s env prods ws] assms this
  show "\<exists>iv'. r_invoices (approve s env valid prods db ws iid) iid = Some iv'
               \<and> r_response (approve s env valid prods db ws iid) = Json iv'
               \<and> status iv' = ''approved'' \<and> pdfAccessToken iv' = Some (e_token env)
               \<and> pdfTokenExpiry iv' = Some (e_tokenTime env + 7 * day_ms)"
    by blast
qed (use assms in \<open>simp_all add: approve_def findById_def\<close>)



theorem approve_status_gate_witness:
  "db0 iid_draft = Some (inv0\<lparr>status := ''draft''\<rparr>) \<and> db0 iid_pending = Some inv_pending
   \<and> r_response (approve sess0 env_fail is_object_id prods0 db0 [] iid_draft)
       = Fail 400 [(''error'', ''Invoice is not pending approval''), (''currentStatus'', ''draft'')]
   \<and> r_invoices (approve sess0 env_fail is_object_id prods0 db0 [] iid_draft) = db0
   \<and> (\<exists>iv'. r_invoices (approve sess0 env_fail is_object_id prods0 db0 [] iid_pending) iid_pending = Some iv'
          \<and> status iv' = ''approved'' \<and> pdfAccessToken iv' = Some ''5f2a''
          \<and> pdfTokenExpiry iv' = Some (1001 + 7 * day_ms))
   \<and> r_errors (approve sess0 env_fail is_object_id prods0 db0 [] iid_pending)
       = [''PDF generation error'', ''Warranty creation error'',
          ''Notification sending error'', ''Activity logging error'']"
proof -
  let ?d = "inv0\<lparr>status := ''draft''\<rparr>"
  have h0: "is_object_id iid_draft" "is_object_id iid_pending" by code_simp+
  have h1: "db0 iid_draft = Some ?d" by code_simp
  have h2: "status ?d \<noteq> ''pending_approval''" by simp
  have h3: "db0 iid_pending = Some inv_pending" by code_simp
  have h4: "status inv_pending = ''pending_approval''" by (simp add: inv_pending_def)
  from approve_status_gate [of is_object_id iid_draft db0 ?d sess0 env_fail prods0 "[]"] h0 h1 h2
  have a: "r_response (approve sess0 env_fail is_object_id prods0 db0 [] iid_draft)
             = Fail 400 [(''error'', ''Invoice is not pending approval''), (''currentStatus'', ''draft'')]
           \<and> r_invoices (approve sess0 env_fail is_object_id prods0 db0 [] iid_draft) = db0"
    by simp
  have t: "e_token env_fail = ''5f2a''" "e_tokenTime env_fail = 1001"
    by (simp_all add: env_fail_def)
  from approve_status_gate [of is_object_id iid_pending db0 inv_pending sess0 env_fail prods0 "[]"] h0 h3 h4
  have b: "\<exists>iv'. r_invoices (approve sess0 env_fail is_object_id prods0 db0 [] iid_pending) iid_pending = Some iv'
          \<and> status iv' = ''approved'' \<and> pdfAccessToken iv' = Some ''5f2a''
          \<and> pdfTokenExpiry iv' = Some (1001 + 7 * day_ms)"
    unfolding t by blast
  have c: "r_errors (approve sess0 env_fail is_object_id prods0 db0 [] iid_pending)
       = [''PDF generation error'', ''Warranty creation error'',
          ''Notification sending error'', ''Activity logging error'']"
    by code_simp
  from h1 h3 a b c show ?thesis by blast
qed


section \<open>Theorems: part resolver\<close>

lemma resolve_one_eq:
  "resolve_one valid prods cat pid =
     (case persisted_match valid prods pid of
        Some p \<Rightarrow> Some (from_database pid p)
      | None \<Rightarrow> map_option from_catalog (cat pid))"
  by (simp add: resolve_one_def persisted_match_def findById_def split: option.splits)

lemma resolve_loop_eq:
  "resolve_loop valid prods cat ids (rs, nf) =
     (rs @ List.map_filter (resolve_one valid prods cat) ids,
      nf @ filter (\<lambda>pid. resolve_one valid prods cat pid = None) ids)"
  by (induction ids arbitrary: rs nf) (auto split: option.splits)

text \<open>
  C4. Resolution strips a leading \<open>product-\<close> and looks the remainder up among the
  persisted products; a persisted match is returned (under the original id); an id with a
  static-catalog entry, looked up unstripped, resolves to that entry if and only if no
  persisted product matches the stripped id; an id matching neither is exactly what the
  not-found list collects, the rest of the batch being resolved as usual; and for every
  list of ids, malformed ones included (those the store rejects), the handler answers
  with the two lists and no error.
\<close>

theorem resolve_by_ids_spec:
  "(\<forall>p. persisted_match valid prods pid = Some p \<longrightarrow>
        resolve_one valid prods cat pid = Some (from_database pid p))
   \<and> (\<forall>part. cat pid = Some part \<longrightarrow>
        (resolve_one valid prods cat pid = Some (from_catalog part)
           \<longleftrightarrow> persisted_match valid prods pid = None))
   \<and> (resolve_one valid prods cat pid = None
        \<longleftrightarrow> persisted_match valid prods pid = None \<and> cat pid = None)
   \<and> (\<not> valid (mongoId pid) \<longrightarrow> resolve_one valid prods cat pid = map_option from_catalog (cat pid))
   \<and> resolve_by_ids valid prods cat (Some ids)
        = Json (List.map_filter (resolve_one valid prods cat) ids,
                filter (\<lambda>i. persisted_match valid prods i = None \<and> cat i = None) ids)"
proof -
  have "from_database pid p \<noteq> from_catalog part" for p part
    by (simp add: from_database_def from_catalog_def)
  moreover have "filter (\<lambda>i. resolve_one valid prods cat i = None) ids
        = filter (\<lambda>i. persisted_match valid prods i = None \<and> cat i = None) ids"
    by (rule filter_cong) (auto simp: resolve_one_eq split: option.splits)
  ultimately show ?thesis
    by (auto simp: resolve_one_eq resolve_by_ids_def resolve_loop_eq persisted_match_def
             split: option.splits)
qed

theorem resolve_by_ids_spec_witness:
  "cat0 ''brake-pads'' = Some brake_pads \<and> \<not> is_object_id (mongoId ''brake-pads'')
   \<and> persisted_match is_object_id prods0 ''brake-pads'' = None
   \<and> resolve_one is_object_id prods0 cat0 ''brake-pads'' = Some (from_catalog brake_pads)
   \<and> (\<exists>p p'. prods0 pid1 = Some p \<and> prods0 pid3 = Some p' \<and>
          resolve_by_ids is_object_id prods0 cat0 (Some ids0)
            = Json ([from_database (''product-'' @ pid1) p, from_catalog brake_pads, from_database pid3 p'],
                    [''no-such-part'', ''product-zzz'']))"
proof -
  have h1: "cat0 ''brake-pads'' = Some brake_pads" by (simp add: cat0_def pid3_def)
  have h2: "\<not> is_object_id (mongoId ''brake-pads'')" by code_simp
  have h3: "persisted_match is_object_id prods0 ''brake-pads'' = None" by code_simp
  note t = resolve_by_ids_spec [of is_object_id prods0 "''brake-pads''" cat0 ids0]
  from t h1 h3 have a: "resolve_one is_object_id prods0 cat0 ''brake-pads'' = Some (from_catalog brake_pads)"
    by blast
  have e1: "List.map_filter (resolve_one is_object_id prods0 cat0) ids0
      = [from_database (''product-'' @ pid1) (the (prods0 pid1)), from_catalog brake_pads,
         from_database pid3 (the (prods0 pid3))]"
    by code_simp
  have e2: "filter (\<lambda>i. persisted_match is_object_id prods0 i = None \<and> cat0 i = None) ids0
      = [''no-such-part'', ''product-zzz'']"
    by code_simp
  have e3: "prods0 pid1 = Some (the (prods0 pid1))" "prods0 pid3 = Some (the (prods0 pid3))"
    by code_simp+
  from t e1 e2 have b: "resolve_by_ids is_object_id prods0 cat0 (Some ids0)
            = Json ([from_database (''product-'' @ pid1) (the (prods0 pid1)), from_catalog brake_pads,
                     from_database pid3 (the (prods0 pid3))],
                    [''no-such-part'', ''product-zzz''])"
    by simp
  from h1 h2 h3 a b e3 show ?thesis by blast
qed

section \<open>Theorems: invoice creation\<close>

text \<open>
  C8 as stated fails: the errors are fixed messages. Two visits with different statuses,
  \<open>working\<close> and \<open>inquired\<close>, get the same answer, which names neither.
\<close>

theorem create_error_counterexample:
  "map_option sv_status (visits shop0 vid2) = Some ''working''
   \<and> map_option sv_status (visits shop0 vid3) = Some ''inquired''
   \<and> snd (createFromServiceVisit sess0 new0 inv0 is_object_id isValid0 calculateDiscount0 shop0
            (body0\<lparr>b_serviceVisitId := vid2\<rparr>))
       = Fail 400 [(''error'', ''Can only generate invoice for completed service visits'')]
   \<and> snd (createFromServiceVisit sess0 new0 inv0 is_object_id isValid0 calculateDiscount0 shop0
            (body0\<lparr>b_serviceVisitId := vid3\<rparr>))
       = Fail 400 [(''error'', ''Can only generate invoice for completed service visits'')]"
  by code_simp

text \<open>
  C8, amended. If the referenced visit does not exist, has no associated customer, or
  has a status other than \<open>completed\<close>, creation fails with a fixed error that depends
  only on which precondition failed (not found, no associated customer, only completed
  visits; a visit id the store cannot cast fails as a server error), and the stores are
  left exactly as they were: no invoice is created and no coupon is touched.
\<close>

theorem create_preconditions:
  "(\<not> valid (b_serviceVisitId b) \<longrightarrow>
      createFromServiceVisit s new_id defaults valid isValid calc st b
        = (st, Fail 500 [(''error'', ''Failed to create invoice'')]))
   \<and> (valid (b_serviceVisitId b) \<and> visits st (b_serviceVisitId b) = None \<longrightarrow>
      createFromServiceVisit s new_id defaults valid isValid calc st b
        = (st, Fail 404 [(''error'', ''Service visit not found'')]))
   \<and> (\<forall>sv. valid (b_serviceVisitId b) \<and> visits st (b_serviceVisitId b) = Some sv
          \<and> populate_customer st sv = None \<longrightarrow>
      createFromServiceVisit s new_id defaults valid isValid calc st b
        = (st, Fail 400 [(''error'', ''Service visit has no associated customer'')]))
   \<and> (\<forall>sv. valid (b_serviceVisitId b) \<and> visits st (b_serviceVisitId b) = Some sv
          \<and> populate_customer st sv \<noteq> None \<and> sv_status sv \<noteq> ''completed'' \<longrightarrow>
      createFromServiceVisit s new_id defaults valid isValid calc st b
        = (st, Fail 400 [(''error'', ''Can only generate invoice for completed service visits'')]))"
  by (auto simp: createFromServiceVisit_def findById_def split: option.splits)

theorem create_preconditions_witness:
  "\<not> is_object_id ''visit-7''
   \<and> createFromServiceVisit sess0 new0 inv0 is_object_id isValid0 calculateDiscount0 shop0
        (body0\<lparr>b_serviceVisitId := ''visit-7''\<rparr>)
       = (shop0, Fail 500 [(''error'', ''Failed to create invoice'')])
   \<and> is_object_id vid5 \<and> visits shop0 vid5 = None
   \<and> createFromServiceVisit sess0 new0 inv0 is_object_id isValid0 calculateDiscount0 shop0
        (body0\<lparr>b_serviceVisitId := vid5\<rparr>)
       = (shop0, Fail 404 [(''error'', ''Service visit not found'')])
   \<and> map_option sv_customerId (visits shop0 vid4) = Some None
   \<and> createFromServiceVisit sess0 new0 inv0 is_object_id isValid0 calculateDiscount0 shop0
        (body0\<lparr>b_serviceVisitId := vid4\<rparr>)
       = (shop0, Fail 400 [(''error'', ''Service visit has no associated customer'')])
   \<and> map_option sv_status (visits shop0 vid2) = Some ''working''
   \<and> createFromServiceVisit sess0 new0 inv0 is_object_id isValid0 calculateDiscount0 shop0
        (body0\<lparr>b_serviceVisitId := vid2\<rparr>)
       = (shop0, Fail 400 [(''error'', ''Can only generate invoice for completed service visits'')])"
proof -
  let ?v4 = "visit0\<lparr>sv_customerId := None, sv_status := ''waiting''\<rparr>"
  let ?v2 = "visit0\<lparr>sv_status := ''working''\<rparr>"
  have a1: "\<not> is_object_id ''visit-7''" by code_simp
  have a2: "is_object_id vid5" "visits shop0 vid5 = None" by code_simp+
  have a3: "is_object_id vid4" "visits shop0 vid4 = Some ?v4" "populate_customer shop0 ?v4 = None"
    by code_simp+
  have a4: "is_object_id vid2" "visits shop0 vid2 = Some ?v2" "populate_customer shop0 ?v2 \<noteq> None"
    "sv_status ?v2 \<noteq> ''completed''"
    by code_simp+
  note t = create_preconditions [where valid = is_object_id and st = shop0 and s = sess0
      and new_id = new0 and defaults = inv0 and isValid = isValid0 and calc = calculateDiscount0]
  from t [where b = "body0\<lparr>b_serviceVisitId := ''visit-7''\<rparr>"] a1
  have b1: "createFromServiceVisit sess0 new0 inv0 is_object_id isValid0 calculateDiscount0 shop0
        (body0\<lparr>b_serviceVisitId := ''visit-7''\<rparr>)
       = (shop0, Fail 500 [(''error'', ''Failed to create invoice'')])"
    by simp
  from t [where b = "body0\<lparr>b_serviceVisitId := vid5\<rparr>"] a2
  have b2: "createFromServiceVisit sess0 new0 inv0 is_object_id isValid0 calculateDiscount0 shop0
        (body0\<lparr>b_serviceVisitId := vid5\<rparr>)
       = (shop0, Fail 404 [(''error'', ''Service visit not found'')])"
    by simp
  from t [where b = "body0\<lparr>b_serviceVisitId := vid4\<rparr>"] a3
  have b3: "createFromServiceVisit sess0 new0 inv0 is_object_id isValid0 calculateDiscount0 shop0
        (body0\<lparr>b_serviceVisitId := vid4\<rparr>)
       = (shop0, Fail 400 [(''error'', ''Service visit has no associated customer'')])"
    by simp
  from t [where b = "body0\<lparr>b_serviceVisitId := vid2\<rparr>"] a4
  have b4: "createFromServiceVisit sess0 new0 inv0 is_object_id isValid0 calculateDiscount0 shop0
        (body0\<lparr>b_serviceVisitId := vid2\<rparr>)
       = (shop0, Fail 400 [(''error'', ''Can only generate invoice for completed service visits'')])"
    by simp
  from a1 a2 a3(2) a4(2) b1 b2 b3 b4 show ?thesis by simp
qed

text \<open>
  What an accepted creation stores, for either outcome of the coupon branch: the
  discount fields and the coupon reference follow the applied coupon, whose counter and
  ledger are then updated; the coupon code is stored as supplied, in upper case.
\<close>

lemma create_coupon_effects:
  assumes "valid (b_serviceVisitId b)" and "visits st (b_serviceVisitId b) = Some sv"
    and "populate_customer st sv = Some (cid, cust)" and "sv_status sv = ''completed''"
    and "sub = foldl (\<lambda>sum item. fadd sum (total item)) 0 (b_items b)"
    and "createFromServiceVisit s new_id defaults valid isValid calc st b = (st', r)"
  shows "\<exists>iv. r = Json iv \<and> invoices st' = (invoices st)(new_id \<mapsto> iv)
           \<and> subtotal iv = sub \<and> totalAmount iv = fsub sub (discountAmount iv)
           \<and> dueAmount iv = totalAmount iv \<and> status iv = ''pending_approval''
           \<and> couponCode iv = map_option toUpperCase (b_couponCode b)
           \<and> (case applied_coupon isValid (coupons st) (b_couponCode b) cid sub of
                 None \<Rightarrow> discountAmount iv = 0 \<and> discountType iv = ''none'' \<and> discountValue iv = 0
                          \<and> couponId iv = None \<and> coupons st' = coupons st
               | Some c \<Rightarrow> discountAmount iv = calc c sub \<and> discountType iv = c_discountType c
                          \<and> discountValue iv = c_discountValue c \<and> couponId iv = Some (c_oid c)
                          \<and> coupons st' =
                              map (\<lambda>c'. if c_oid c' = c_oid c
                                         then c'\<lparr>usedCount := usedCount c' + 1,
                                                 usageHistory := usageHistory c' @
                                                   [\<lparr>u_invoiceId = new_id, u_customerId = cid,
                                                     discountApplied = calc c sub\<rparr>]\<rparr>
                                         else c')
                                (coupons st))"
  using assms
  by (auto simp: createFromServiceVisit_def findById_def Let_def split: option.splits)

text \<open>
  C5. A coupon code that matches no coupon leaves the discount at zero and the coupon
  reference empty, and touches no coupon, but the invoice is stored with the supplied
  code attached (in upper case): the claim's "no coupon code attached" does not hold
  of the code.
\<close>

theorem create_invalid_coupon_keeps_code:
  "applied_coupon isValid0 (coupons shop0) (Some ''bogus'') cid1 500 = None
   \<and> (case createFromServiceVisit sess0 new0 inv0 is_object_id isValid0 calculateDiscount0 shop0
            (body0\<lparr>b_couponCode := Some ''bogus''\<rparr>) of
        (st', Json iv) \<Rightarrow> map_option couponCode (invoices st' new0) = Some (Some ''BOGUS'')
                  \<and> discountAmount iv = 0 \<and> discountType iv = ''none''
                  \<and> couponId iv = None \<and> couponCode iv = Some ''BOGUS''
                  \<and> coupons st' = coupons shop0
      | (st', Fail c e) \<Rightarrow> False)"
  by code_simp

section \<open>Theorems: warranty-card sync\<close>

lemma findIndex_None: "findIndex P xs = None \<longleftrightarrow> (\<forall>x \<in> set xs. \<not> P x)"
  by (induction xs) auto

lemma findIndex_Some: "findIndex P xs = Some i \<Longrightarrow> i < length xs \<and> P (xs ! i)"
  by (induction xs arbitrary: i) (auto split: if_splits)

lemma filter_update_same:
  "i < length xs \<Longrightarrow> P (xs ! i) \<Longrightarrow> P y \<Longrightarrow> length (filter P (xs[i := y])) = length (filter P xs)"
proof (induction xs arbitrary: i)
  case Nil
  then show ?case by simp
next
  case (Cons x xs)
  then show ?case by (cases i) auto
qed

lemma upsert_count:
  "length (filter (\<lambda>wc. partId wc = p) (upsert_card p n d cs))
     = max 1 (length (filter (\<lambda>wc. partId wc = p) cs))"
proof (cases "findIndex (\<lambda>wc. partId wc = p) cs")
  case None
  then have "filter (\<lambda>wc. partId wc = p) cs = []"
    by (simp add: findIndex_None filter_empty_conv)
  with None show ?thesis by (simp add: upsert_card_def)
next
  case (Some i)
  from findIndex_Some [OF Some] have i: "i < length cs" "partId (cs ! i) = p" by simp_all
  then have "cs ! i \<in> set (filter (\<lambda>wc. partId wc = p) cs)" by simp
  then have "1 \<le> length (filter (\<lambda>wc. partId wc = p) cs)"
    by (cases "filter (\<lambda>wc. partId wc = p) cs") auto
  moreover have "length (filter (\<lambda>wc. partId wc = p) (cs[i := \<lparr>partId = p, partName = n, fileData = d\<rparr>]))
        = length (filter (\<lambda>wc. partId wc = p) cs)"
    using i by (intro filter_update_same) simp_all
  ultimately show ?thesis using Some by (simp add: upsert_card_def)
qed

lemma sync_vehicle_count:
  "v_customerId v = cid \<Longrightarrow> sync_applies ids p v \<Longrightarrow>
   count_part p (sync_vehicle ids cid p n d v) = max 1 (count_part p v)"
  by (simp add: sync_vehicle_def count_part_def upsert_count)

lemma upload_vehicles:
  assumes "accepted (snd (upload_warranty_card valid now st iid b))"
  shows "\<exists>iv i data. invoices st iid = Some iv \<and> ub_itemIndex b = Some i \<and> 0 \<le> i
           \<and> i < int (length (items iv)) \<and> ub_warrantyCardData b = Some data
           \<and> vehicles (fst (upload_warranty_card valid now st iid b)) =
               (case (productId (items iv ! nat i), customerId iv) of
                  (Some pid, Some cid) \<Rightarrow>
                    if pid = [] \<or> invoiceVehicleIds iv = [] then vehicles st
                    else map (sync_vehicle (invoiceVehicleIds iv) cid pid (item_name (items iv ! nat i)) data)
                           (vehicles st)
                | _ \<Rightarrow> vehicles st)"
proof (cases "upload_checks b")
  case (Inl e)
  with assms show ?thesis
    by (cases e) (simp add: upload_warranty_card_def accepted_def)
next
  case (Inr t)
  then obtain i data fname where t: "upload_checks b = Inr (i, data, fname)"
    by (cases t) auto
  then have b: "ub_itemIndex b = Some i" "ub_warrantyCardData b = Some data"
    by (auto simp: upload_checks_def split: option.splits if_splits prod.splits)
  from assms t obtain iv where iv: "invoices st iid = Some iv" "valid iid"
    and r: "0 \<le> i" "i < int (length (items iv))"
    by (auto simp: upload_warranty_card_def accepted_def findById_def
             split: option.splits if_splits)
  have ids: "invoiceVehicleIds (iv\<lparr>items := its\<rparr>) = invoiceVehicleIds iv" for its
    by (simp add: invoiceVehicleIds_def)
  from t iv r have "vehicles (fst (upload_warranty_card valid now st iid b)) =
               (case (productId (items iv ! nat i), customerId iv) of
                  (Some pid, Some cid) \<Rightarrow>
                    if pid = [] \<or> invoiceVehicleIds iv = [] then vehicles st
                    else map (sync_vehicle (invoiceVehicleIds iv) cid pid (item_name (items iv ! nat i)) data)
                           (vehicles st)
                | _ \<Rightarrow> vehicles st)"
    by (simp add: upload_warranty_card_def findById_def Let_def sync_card_def ids
             split: option.splits)
  with iv b r show ?thesis by blast
qed

lemma sync_step:
  assumes "syncs_to valid st (now, iid, b) j p"
  shows "count_part p (vehicles (fst (upload_warranty_card valid now st iid b)) ! j)
           = max 1 (count_part p (vehicles st ! j))"
proof -
  from assms have acc: "accepted (snd (upload_warranty_card valid now st iid b))"
    and j: "j < length (vehicles st)" and p: "p \<noteq> []"
    by (simp_all add: syncs_to_def)
  from upload_vehicles [OF acc] obtain iv i data where
    iv: "invoices st iid = Some iv" "ub_itemIndex b = Some i"
    and v: "vehicles (fst (upload_warranty_card valid now st iid b)) =
               (case (productId (items iv ! nat i), customerId iv) of
                  (Some pid, Some cid) \<Rightarrow>
                    if pid = [] \<or> invoiceVehicleIds iv = [] then vehicles st
                    else map (sync_vehicle (invoiceVehicleIds iv) cid pid (item_name (items iv ! nat i)) data)
                           (vehicles st)
                | _ \<Rightarrow> vehicles st)"
    by blast
  from assms iv obtain cid where
    c: "productId (items iv ! nat i) = Some p" "invoiceVehicleIds iv \<noteq> []" "customerId iv = Some cid"
       "v_customerId (vehicles st ! j) = cid" "sync_applies (invoiceVehicleIds iv) p (vehicles st ! j)"
    by (auto simp: syncs_to_def split: option.splits)
  from v c p have "vehicles (fst (upload_warranty_card valid now st iid b)) =
      map (sync_vehicle (invoiceVehicleIds iv) cid p (item_name (items iv ! nat i)) data) (vehicles st)"
    by simp
  with j c show ?thesis by (simp add: sync_vehicle_count)
qed

text \<open>
  C7 as stated fails for a vehicle that already holds two entries for the part: the
  upload overwrites the first of them and the other stays.
\<close>

theorem uploads_duplicate_counterexample:
  "syncs_to is_object_id shop_dup (10, iid1, upload0 ''data:image/png;base64,AAAA'') 0 pid1
   \<and> count_part pid1 (vehicles shop_dup ! 0) = 2
   \<and> count_part pid1
        (vehicles (upload_all is_object_id shop_dup [(10, iid1, upload0 ''data:image/png;base64,AAAA'')]) ! 0)
       = 2"
  by code_simp

text \<open>
  C7, amended. After one or more warranty-card uploads for a product that each sync to
  a vehicle, the number of entries of the vehicle's \<open>warrantyCards\<close> keyed by that part
  id is the number before the uploads, or one if there was none: an upload overwrites
  the first entry with that part id and appends only when there is none. So a vehicle
  that held at most one entry for the part holds exactly one afterwards.
\<close>

theorem uploads_keep_one_entry:
  assumes "all_sync_to valid st ups j p" and "ups \<noteq> []"
  shows "count_part p (vehicles (upload_all valid st ups) ! j) = max 1 (count_part p (vehicles st ! j))
         \<and> (count_part p (vehicles st ! j) \<le> 1 \<longrightarrow>
              count_part p (vehicles (upload_all valid st ups) ! j) = 1)"
proof -
  have "count_part p (vehicles (upload_all valid st ups) ! j) = max 1 (count_part p (vehicles st ! j))"
    using assms
  proof (induction ups arbitrary: st)
    case Nil
    then show ?case by simp
  next
    case (Cons u us)
    obtain now iid b where u: "u = (now, iid, b)" by (cases u) auto
    let ?st = "fst (upload_warranty_card valid now st iid b)"
    from Cons.prems u have s: "syncs_to valid st (now, iid, b) j p" and r: "all_sync_to valid ?st us j p"
      by simp_all
    show ?case
    proof (cases us)
      case Nil
      with u sync_step [OF s] show ?thesis by simp
    next
      case (Cons a as)
      with Cons.IH [OF r] have "count_part p (vehicles (upload_all valid ?st us) ! j)
          = max 1 (count_part p (vehicles ?st ! j))" by simp
      with u sync_step [OF s] show ?thesis by simp
    qed
  qed
  then show ?thesis by simp
qed


theorem uploads_keep_one_entry_witness:
  "all_sync_to is_object_id shop_up ups0 0 pid1 \<and> ups0 \<noteq> []
   \<and> count_part pid1 (vehicles shop_up ! 0) \<le> 1
   \<and> count_part pid1 (vehicles (upload_all is_object_id shop_up ups0) ! 0) = 1
   \<and> map_option (map fileData) (warrantyCards (vehicles (upload_all is_object_id shop_up ups0) ! 0))
        = Some [''data:image/webp;base64,CCCC'']"
proof -
  have h1: "all_sync_to is_object_id shop_up ups0 0 pid1" by code_simp
  have h2: "ups0 \<noteq> []" by (simp add: ups0_def)
  have h3: "count_part pid1 (vehicles shop_up ! 0) \<le> 1" by code_simp
  have e: "map_option (map fileData) (warrantyCards (vehicles (upload_all is_object_id shop_up ups0) ! 0))
        = Some [''data:image/webp;base64,CCCC'']"
    by code_simp
  from uploads_keep_one_entry [OF h1 h2] h3
  have "count_part pid1 (vehicles (upload_all is_object_id shop_up ups0) ! 0) = 1" by blast
  with h1 h2 h3 e show ?thesis by blast
qed

section \<open>Theorems: service-visit status updates\<close>

text \<open>The form tests the preconditions before it sends anything.\<close>

lemma form_refuses:
  assumes s: "selectedService f = Some (sid, svc)" and n: "selectedStatus f \<noteq> []"
    and p: "\<not> form_precondition f"
  shows "\<exists>msg. handleStatusUpdate f = Toast ''Validation Error'' msg"
proof (cases "selectedStatus f \<noteq> ''inquired'' \<and> selectedHandlers f = []")
  case True
  with s n show ?thesis by (simp add: handleStatusUpdate_def)
next
  case h: False
  show ?thesis
  proof (cases "(selectedStatus f = ''working'' \<or> selectedStatus f = ''waiting'') \<and> form_beforeImages f = []")
    case True
    with s n h show ?thesis by (simp add: handleStatusUpdate_def)
  next
    case b: False
    from p h b have "selectedStatus f = ''completed'' \<and> form_afterImages f = []"
      unfolding form_precondition_def by blast
    with s n h b show ?thesis by (simp add: handleStatusUpdate_def)
  qed
qed

lemma form_sends:
  assumes "handleStatusUpdate f = Mutate sid b"
  shows "form_precondition f \<and> pb_status b = Some (selectedStatus f)
         \<and> pb_handlerIds b = Some (sort (selectedHandlers f))
         \<and> pb_beforeImages b = Some (form_beforeImages f)
         \<and> pb_afterImages b = Some (form_afterImages f)"
  using assms
  by (auto simp: handleStatusUpdate_def form_precondition_def Let_def
           split: option.splits prod.splits if_splits)

text \<open>The save of the model on a status change to a target other than \<open>inquired\<close>.\<close>

lemma pre_save_refuses:
  assumes "sv_status new \<noteq> sv_status old" and "sv_status new \<noteq> ''inquired''"
    and "\<not> phase_precondition new"
  shows "pre_save now old new = Inl ''ValidationError''"
proof (cases "handlerIds new = []")
  case True
  with assms(1,2) show ?thesis by (simp add: pre_save_def)
next
  case h: False
  show ?thesis
  proof (cases "(sv_status new = ''working'' \<or> sv_status new = ''waiting'') \<and> beforeImages new = []")
    case True
    with assms(1) h show ?thesis by (simp add: pre_save_def)
  next
    case b: False
    from assms(3) h b have "sv_status new = ''completed'' \<and> afterImages new = []"
      unfolding phase_precondition_def by blast
    with assms(1) h b show ?thesis by (simp add: pre_save_def)
  qed
qed

lemma pre_save_accepts:
  assumes "sv_status new \<noteq> sv_status old" and "sv_status new \<noteq> ''inquired''"
    and "phase_precondition new"
  shows "pre_save now old new
           = Inr (new\<lparr>stageTimestamps :=
                    (if sv_status new = ''working'' then (stageTimestamps new)\<lparr>ts_working := Some now\<rparr>
                     else if sv_status new = ''waiting'' then (stageTimestamps new)\<lparr>ts_waiting := Some now\<rparr>
                     else if sv_status new = ''completed'' then (stageTimestamps new)\<lparr>ts_completed := Some now\<rparr>
                     else stageTimestamps new)\<rparr>)"
proof -
  from assms(3) have h: "handlerIds new \<noteq> []"
    and b: "\<not> ((sv_status new = ''working'' \<or> sv_status new = ''waiting'') \<and> beforeImages new = [])"
    and a: "\<not> (sv_status new = ''completed'' \<and> afterImages new = [])"
    unfolding phase_precondition_def by blast+
  from assms(1,2) h b a show ?thesis
    by (simp add: pre_save_def Let_def)
qed

lemma patch_hook_refused:
  assumes "valid vid" and "db vid = Some v" and "hook v (apply_body v b) = Inl e"
  shows "\<exists>msg. patch_service_visit hook valid post db vid b = (db, Fail 400 [(''error'', msg)])"
  using assms by (simp add: patch_service_visit_def findById_def Let_def)

lemma patch_hook_saved:
  assumes "valid vid" and "db vid = Some v" and "images_ok b" and "hook v (apply_body v b) = Inr v'"
  shows "fst (patch_service_visit hook valid post db vid b) = db(vid \<mapsto> v')"
    and "p_populate_ok post \<and> p_notify_ok post \<and> p_log_ok post \<Longrightarrow>
         snd (patch_service_visit hook valid post db vid b)
           = Json (v', sv_status v' \<noteq> [] \<and> sv_status v \<noteq> sv_status v')"
  using assms
  by (auto simp: patch_service_visit_def findById_def Let_def images_ok_def split: option.splits)

text \<open>
  C1 as stated fails: \<open>completed\<close> does not require a before-image. A visit in
  \<open>working\<close> with a handler and no before-image is PATCHed to \<open>completed\<close> with an
  after-image; the request is accepted and stored, and it is the very request that the
  status-update form sends for that input.
\<close>

theorem patch_completed_counterexample:
  "map_option beforeImages (visits0 vid2) = Some []
   \<and> handleStatusUpdate form0 = Mutate vid2 completed_body
   \<and> (case patch_service_visit (pre_save 99) is_object_id post_ok visits0 vid2 completed_body of
         (db', Json (v, notified)) \<Rightarrow>
            map_option sv_status (db' vid2) = Some ''completed''
            \<and> map_option beforeImages (db' vid2) = Some []
            \<and> handlerIds v = [''e1''] \<and> afterImages v = [''https://cdn.example/after.png'']
            \<and> ts_completed (stageTimestamps v) = Some 99 \<and> notified
       | (db', Fail c e) \<Rightarrow> False)"
  by code_simp

text \<open>
  C1, amended. A PATCH that changes the status of a stored visit to a target other than
  \<open>inquired\<close> is rejected with a validation failure (status 400), the stored visits
  left entirely unchanged, unless the preconditions hold: at least one assigned
  handler, for the targets \<open>working\<close> and \<open>waiting\<close> at least one before-image, and
  for the target \<open>completed\<close> at least one after-image (no before-image). When they
  hold and the supplied images are well-formed, the visit is stored with the new status
  and the fields of the request, the timestamp of the new phase set to the current time;
  the request is answered with the visit when the steps after the save succeed.
\<close>

theorem patch_status_gate:
  assumes "valid vid" and "db vid = Some v" and "pb_status b = Some s"
    and "s \<noteq> sv_status v" and "s \<noteq> ''inquired''"
  shows "(\<not> phase_precondition (apply_body v b) \<longrightarrow>
            (\<exists>msg. patch_service_visit (pre_save now) valid post db vid b
                     = (db, Fail 400 [(''error'', msg)])))
       \<and> (phase_precondition (apply_body v b) \<and> images_ok b \<longrightarrow>
            (\<exists>v' ts. fst (patch_service_visit (pre_save now) valid post db vid b) = db(vid \<mapsto> v')
               \<and> v' = (apply_body v b)\<lparr>stageTimestamps := ts\<rparr> \<and> sv_status v' = s
               \<and> (s = ''working'' \<longrightarrow> ts = (stageTimestamps v)\<lparr>ts_working := Some now\<rparr>)
               \<and> (s = ''waiting'' \<longrightarrow> ts = (stageTimestamps v)\<lparr>ts_waiting := Some now\<rparr>)
               \<and> (s = ''completed'' \<longrightarrow> ts = (stageTimestamps v)\<lparr>ts_completed := Some now\<rparr>)
               \<and> (p_populate_ok post \<and> p_notify_ok post \<and> p_log_ok post \<longrightarrow>
                    snd (patch_service_visit (pre_save now) valid post db vid b) = Json (v', s \<noteq> []))))"
proof (intro conjI impI)
  let ?new = "apply_body v b"
  from assms(3) have st: "sv_status ?new = s" by (simp add: apply_body_def)
  have tsn: "stageTimestamps ?new = stageTimestamps v" by (simp add: apply_body_def)
  {
    assume "\<not> phase_precondition ?new"
    with st assms(4,5) have "pre_save now v ?new = Inl ''ValidationError''"
      by (intro pre_save_refuses) simp_all
    with patch_hook_refused [of valid vid db v "pre_save now" b "''ValidationError''" post] assms(1,2)
    show "\<exists>msg. patch_service_visit (pre_save now) valid post db vid b
                 = (db, Fail 400 [(''error'', msg)])" by simp
  }
  {
    assume pi: "phase_precondition ?new \<and> images_ok b"
    define ts where "ts = (if s = ''working'' then (stageTimestamps v)\<lparr>ts_working := Some now\<rparr>
                     else if s = ''waiting'' then (stageTimestamps v)\<lparr>ts_waiting := Some now\<rparr>
                     else if s = ''completed'' then (stageTimestamps v)\<lparr>ts_completed := Some now\<rparr>
                     else stageTimestamps v)"
    from pi st assms(4,5) pre_save_accepts [of ?new v now]
    have ps: "pre_save now v ?new = Inr (?new\<lparr>stageTimestamps := ts\<rparr>)"
      unfolding ts_def tsn by simp
    have t: "s = ''working'' \<longrightarrow> ts = (stageTimestamps v)\<lparr>ts_working := Some now\<rparr>"
            "s = ''waiting'' \<longrightarrow> ts = (stageTimestamps v)\<lparr>ts_waiting := Some now\<rparr>"
            "s = ''completed'' \<longrightarrow> ts = (stageTimestamps v)\<lparr>ts_completed := Some now\<rparr>"
      by (simp_all add: ts_def)
    let ?v' = "?new\<lparr>stageTimestamps := ts\<rparr>"
    from pi have io: "images_ok b" by simp
    have s': "sv_status ?v' = s" using st by simp
    from patch_hook_saved(1) [of valid vid db v b "pre_save now" ?v' post] assms(1,2) io ps
    have f: "fst (patch_service_visit (pre_save now) valid post db vid b) = db(vid \<mapsto> ?v')" by simp
    have r: "p_populate_ok post \<and> p_notify_ok post \<and> p_log_ok post \<longrightarrow>
             snd (patch_service_visit (pre_save now) valid post db vid b) = Json (?v', s \<noteq> [])"
      using patch_hook_saved(2) [of valid vid db v b "pre_save now" ?v' post] assms(1,2,4) io ps s'
      by auto
    from f s' t r
    show "\<exists>v' ts. fst (patch_service_visit (pre_save now) valid post db vid b) = db(vid \<mapsto> v')
               \<and> v' = (apply_body v b)\<lparr>stageTimestamps := ts\<rparr> \<and> sv_status v' = s
               \<and> (s = ''working'' \<longrightarrow> ts = (stageTimestamps v)\<lparr>ts_working := Some now\<rparr>)
               \<and> (s = ''waiting'' \<longrightarrow> ts = (stageTimestamps v)\<lparr>ts_waiting := Some now\<rparr>)
               \<and> (s = ''completed'' \<longrightarrow> ts = (stageTimestamps v)\<lparr>ts_completed := Some now\<rparr>)
               \<and> (p_populate_ok post \<and> p_notify_ok post \<and> p_log_ok post \<longrightarrow>
                    snd (patch_service_visit (pre_save now) valid post db vid b) = Json (v', s \<noteq> []))"
      by blast
  }
qed

theorem patch_status_gate_witness:
  "is_object_id vid2
   \<and> map_option sv_status (visits0 vid2) = Some ''working''
   \<and> map_option handlerIds (visits0 vid2) = Some [''e1'']
   \<and> (\<exists>msg. patch_service_visit (pre_save 99) is_object_id post_ok visits0 vid2
                 (completed_body\<lparr>pb_afterImages := Some []\<rparr>)
               = (visits0, Fail 400 [(''error'', msg)]))
   \<and> (\<exists>msg. patch_service_visit (pre_save 99) is_object_id post_ok visits0 vid2
                 (completed_body\<lparr>pb_handlerIds := Some []\<rparr>)
               = (visits0, Fail 400 [(''error'', msg)]))
   \<and> (\<exists>v'. fst (patch_service_visit (pre_save 99) is_object_id post_ok visits0 vid2 completed_body)
               = visits0(vid2 \<mapsto> v')
           \<and> snd (patch_service_visit (pre_save 99) is_object_id post_ok visits0 vid2 completed_body)
               = Json (v', True)
           \<and> sv_status v' = ''completed'' \<and> handlerIds v' = [''e1'']
           \<and> afterImages v' = [''https://cdn.example/after.png'']
           \<and> ts_completed (stageTimestamps v') = Some 99)"
proof -
  let ?v = "visit0\<lparr>sv_status := ''working'', handlerIds := [''e1'']\<rparr>"
  let ?noafter = "completed_body\<lparr>pb_afterImages := Some []\<rparr>"
  let ?nohandler = "completed_body\<lparr>pb_handlerIds := Some []\<rparr>"
  have h0: "is_object_id vid2" by code_simp
  have h1: "visits0 vid2 = Some ?v" by (simp add: visits0_def)
  have h2: "pb_status completed_body = Some ''completed''" "pb_status ?noafter = Some ''completed''"
    "pb_status ?nohandler = Some ''completed''"
    by (simp_all add: completed_body_def)
  have h3: "''completed'' \<noteq> sv_status ?v" "''completed'' \<noteq> ''inquired''" by simp_all
  have n1: "\<not> phase_precondition (apply_body ?v ?noafter)"
    by (simp add: phase_precondition_def apply_body_def completed_body_def)
  have n2: "\<not> phase_precondition (apply_body ?v ?nohandler)"
    by (simp add: phase_precondition_def apply_body_def completed_body_def)
  have p: "phase_precondition (apply_body ?v completed_body)"
    by (simp add: phase_precondition_def apply_body_def completed_body_def)
  have i: "images_ok completed_body" by code_simp
  have e: "p_populate_ok post_ok \<and> p_notify_ok post_ok \<and> p_log_ok post_ok"
    by (simp add: post_ok_def)
  from patch_status_gate [of is_object_id vid2 visits0 ?v ?noafter "''completed''" 99 post_ok]
    h0 h1 h2 h3 n1
  have a: "\<exists>msg. patch_service_visit (pre_save 99) is_object_id post_ok visits0 vid2 ?noafter
               = (visits0, Fail 400 [(''error'', msg)])"
    by blast
  from patch_status_gate [of is_object_id vid2 visits0 ?v ?nohandler "''completed''" 99 post_ok]
    h0 h1 h2 h3 n2
  have b: "\<exists>msg. patch_service_visit (pre_save 99) is_object_id post_ok visits0 vid2 ?nohandler
               = (visits0, Fail 400 [(''error'', msg)])"
    by blast
  from patch_status_gate [of is_object_id vid2 visits0 ?v completed_body "''completed''" 99 post_ok]
    h0 h1 h2 h3 p i e
  obtain v' ts where f: "fst (patch_service_visit (pre_save 99) is_object_id post_ok visits0 vid2 completed_body)
               = visits0(vid2 \<mapsto> v')"
    and v: "v' = (apply_body ?v completed_body)\<lparr>stageTimestamps := ts\<rparr>" "sv_status v' = ''completed''"
    and t: "ts = (stageTimestamps ?v)\<lparr>ts_completed := Some 99\<rparr>"
    and r: "snd (patch_service_visit (pre_save 99) is_object_id post_ok visits0 vid2 completed_body)
               = Json (v', ''completed'' \<noteq> [])"
    by blast
  from v t have d: "handlerIds v' = [''e1'']" "afterImages v' = [''https://cdn.example/after.png'']"
    "ts_completed (stageTimestamps v') = Some 99"
    by (simp_all add: apply_body_def completed_body_def)
  from r have r': "snd (patch_service_visit (pre_save 99) is_object_id post_ok visits0 vid2 completed_body)
               = Json (v', True)" by simp
  from h1 have s: "map_option sv_status (visits0 vid2) = Some ''working''"
    "map_option handlerIds (visits0 vid2) = Some [''e1'']" by simp_all
  from h0 s a b f r' v(2) d show ?thesis by blast
qed

end
